theory Spec2Isabelle
  imports Complex_Main
begin

section \<open>JavaScript values used by the fetch client\<close>

text \<open>
  The observer is TypeScript. Numbers that are counters, heights or HTTP status codes are
  integers in every run of the program and are modelled as \<^typ>\<open>int\<close> or \<^typ>\<open>nat\<close>;
  the millisecond quantities of the retry policy are modelled as exact \<^typ>\<open>real\<close>
  numbers (the IEEE rounding of \<^verbatim>\<open>Math.pow\<close> is not modelled). A thrown \<^verbatim>\<open>Error\<close>
  is a value carrying its message; every \<^verbatim>\<open>throw\<close> is a left injection.
\<close>

datatype error = Error (message: string)

text \<open>\<^verbatim>\<open>String.prototype.includes\<close>: the needle occurs as a contiguous substring.\<close>

fun js_includes :: "string \<Rightarrow> string \<Rightarrow> bool" where
  "js_includes [] needle = (needle = [])"
| "js_includes (c # cs) needle =
     (take (length needle) (c # cs) = needle \<or> js_includes cs needle)"

text \<open>Decimal rendering of a number inside a template literal.\<close>

definition digit_char :: "nat \<Rightarrow> char" where
  "digit_char d =
     (if d = 0 then CHR ''0'' else if d = 1 then CHR ''1'' else if d = 2 then CHR ''2''
      else if d = 3 then CHR ''3'' else if d = 4 then CHR ''4'' else if d = 5 then CHR ''5''
      else if d = 6 then CHR ''6'' else if d = 7 then CHR ''7'' else if d = 8 then CHR ''8''
      else CHR ''9'')"

fun string_of_nat :: "nat \<Rightarrow> string" where
  "string_of_nat n =
     (if n < 10 then [digit_char n] else string_of_nat (n div 10) @ [digit_char (n mod 10)])"

definition string_of_int :: "int \<Rightarrow> string" where
  "string_of_int i = (if i < 0 then CHR ''-'' # string_of_nat (nat (- i)) else string_of_nat (nat i))"

section \<open>Fetch client: retry policy (src/lib/p2pool-api.ts)\<close>

record RetryConfig =
  maxRetries :: int
  baseDelay :: real
  maxDelay :: real
  backoffMultiplier :: real
  retryCondition :: "(error \<Rightarrow> bool) option"

text \<open>
  \<^verbatim>\<open>retryCondition: (error) => error.message.includes('fetch') ||
     error.message.includes('timeout') || error.message.includes('AbortError') ||
     error.message.includes('5')\<close>
\<close>

definition default_retryCondition :: "error \<Rightarrow> bool" where
  "default_retryCondition e =
     (js_includes (message e) ''fetch'' \<or> js_includes (message e) ''timeout'' \<or>
      js_includes (message e) ''AbortError'' \<or> js_includes (message e) ''5'')"

definition DEFAULT_RETRY_CONFIG :: RetryConfig where
  "DEFAULT_RETRY_CONFIG =
     \<lparr>maxRetries = 3, baseDelay = 1000, maxDelay = 10000, backoffMultiplier = 2,
      retryCondition = Some default_retryCondition\<rparr>"

text \<open>
  \<^verbatim>\<open>const delay = config.baseDelay * Math.pow(config.backoffMultiplier, attempt - 1);
  return Math.min(delay, config.maxDelay);\<close>
\<close>

definition calculateDelay :: "int \<Rightarrow> RetryConfig \<Rightarrow> real" where
  "calculateDelay attempt config =
     (let delay = baseDelay config * (backoffMultiplier config powi (attempt - 1))
      in min delay (maxDelay config))"

text \<open>
  What one call of \<^verbatim>\<open>fetch\<close> does: it resolves with a response (status and status
  text), rejects with an \<^verbatim>\<open>Error\<close> (network failure, abort on timeout), or rejects
  with a value that is not an \<^verbatim>\<open>Error\<close>.
\<close>

datatype fetch_outcome =
    Response (status: nat) (statusText: string)
  | Rejects error
  | RejectsNonError

definition ok :: "fetch_outcome \<Rightarrow> bool" where
  "ok r = (case r of Response s _ \<Rightarrow> 200 \<le> s \<and> s \<le> 299 | _ \<Rightarrow> False)"

text \<open>
  The body of the \<^verbatim>\<open>try\<close> block of one attempt. A response that is not ok throws
  \<^verbatim>\<open>new Error(`HTTP ${response.status}: ${response.statusText}`)\<close>; for a status in
  400..499 an error toast is shown first and the same error is thrown. Both throws are
  inside the \<^verbatim>\<open>try\<close>, so both reach the \<^verbatim>\<open>catch\<close> block of the attempt, where
  a value that is not an \<^verbatim>\<open>Error\<close> becomes \<^verbatim>\<open>new Error('Unknown error')\<close>.
\<close>

definition http_error :: "nat \<Rightarrow> string \<Rightarrow> error" where
  "http_error s txt = Error (''HTTP '' @ string_of_nat s @ '': '' @ txt)"

definition attempt_once :: "fetch_outcome \<Rightarrow> error + fetch_outcome" where
  "attempt_once r =
     (case r of
        Response s txt \<Rightarrow> if ok r then Inr r else Inl (http_error s txt)
      | Rejects e \<Rightarrow> Inl e
      | RejectsNonError \<Rightarrow> Inl (Error ''Unknown error''))"

text \<open>
  The result of \<^verbatim>\<open>fetchWithRetry\<close> together with what it did: how many times
  \<^verbatim>\<open>fetch\<close> was called and the delays it slept, in order.
\<close>

record fetch_run =
  fetch_result :: "error + fetch_outcome"
  fetch_count :: nat
  sleeps :: "real list"

definition shouldRetry :: "RetryConfig \<Rightarrow> int \<Rightarrow> error \<Rightarrow> bool" where
  "shouldRetry retryConfig attempt lastError =
     (attempt \<le> maxRetries retryConfig \<and>
      (case retryCondition retryConfig of None \<Rightarrow> True | Some p \<Rightarrow> p lastError))"

text \<open>
  \<^verbatim>\<open>for (let attempt = 1; attempt <= retryConfig.maxRetries + 1; attempt++)\<close>.
  The environment \<open>fetch\<close> gives the outcome of the call made in each attempt.
\<close>

function fetchWithRetry_from ::
  "(int \<Rightarrow> fetch_outcome) \<Rightarrow> RetryConfig \<Rightarrow> int \<Rightarrow> error option \<Rightarrow> nat \<Rightarrow> real list \<Rightarrow> fetch_run"
where
  "fetchWithRetry_from fetch retryConfig attempt lastError n slept =
     (if attempt \<le> maxRetries retryConfig + 1 then
        (case attempt_once (fetch attempt) of
           Inr response \<Rightarrow> \<lparr>fetch_result = Inr response, fetch_count = Suc n, sleeps = slept\<rparr>
         | Inl err \<Rightarrow>
             if \<not> shouldRetry retryConfig attempt err
             then \<lparr>fetch_result = Inl err, fetch_count = Suc n, sleeps = slept\<rparr>
             else fetchWithRetry_from fetch retryConfig (attempt + 1) (Some err) (Suc n)
                    (slept @ [calculateDelay attempt retryConfig]))
      else \<lparr>fetch_result = Inl (case lastError of Some e \<Rightarrow> e
                                | None \<Rightarrow> Error ''Maximum retries exceeded''),
            fetch_count = n, sleeps = slept\<rparr>)"
  by pat_completeness auto
termination
  by (relation "measure (\<lambda>(fetch, cfg, attempt, lastError, n, slept). nat (maxRetries cfg + 2 - attempt))")
     auto

declare fetchWithRetry_from.simps [simp del]

definition fetchWithRetry :: "(int \<Rightarrow> fetch_outcome) \<Rightarrow> RetryConfig \<Rightarrow> fetch_run" where
  "fetchWithRetry fetch retryConfig = fetchWithRetry_from fetch retryConfig 1 None 0 []"

text \<open>
  An attempt fails with a retryable error when the \<^verbatim>\<open>try\<close> block throws and the
  policy's predicate (if there is one) accepts the error.
\<close>

definition retryable_failure :: "RetryConfig \<Rightarrow> fetch_outcome \<Rightarrow> bool" where
  "retryable_failure retryConfig r =
     (case attempt_once r of
        Inr _ \<Rightarrow> False
      | Inl e \<Rightarrow> (case retryCondition retryConfig of None \<Rightarrow> True | Some p \<Rightarrow> p e))"

section \<open>Miner-scoped reconstruction (src/lib/p2pool-api.ts)\<close>

text \<open>The fields of a side-chain share that the client reads.\<close>

record SideBlock =
  main_height :: int
  template_id :: string
  side_height :: int
  miner_address :: string

text \<open>
  \<^verbatim>\<open>getShares(limit, miner?)\<close> is the upstream: it resolves with the parsed list or
  throws. The environment gives its outcome for the \<open>k\<close>-th call of an operation, the
  limit asked for and the optional \<^verbatim>\<open>miner\<close> parameter (an empty address is falsy and
  sends no parameter).
\<close>

type_synonym shares_api = "nat \<Rightarrow> int \<Rightarrow> string option \<Rightarrow> error + SideBlock list"

definition miner_param :: "string \<Rightarrow> string option" where
  "miner_param miner = (if miner = [] then None else Some miner)"

text \<open>\<^verbatim>\<open>xs.sort((a, b) => b.side_height - a.side_height)\<close>: a stable descending sort.\<close>

definition sort_by_height_desc :: "SideBlock list \<Rightarrow> SideBlock list" where
  "sort_by_height_desc xs = sort_key (\<lambda>share. - side_height share) xs"

text \<open>\<^verbatim>\<open>Array.prototype.slice(0, end)\<close>; a negative end counts from the end of the array.\<close>

definition js_slice0 :: "'a list \<Rightarrow> int \<Rightarrow> 'a list" where
  "js_slice0 xs e = (if e < 0 then take (length xs - nat (- e)) xs else take (nat e) xs)"

definition getMinerSharesDirect :: "shares_api \<Rightarrow> string \<Rightarrow> int \<Rightarrow> SideBlock list" where
  "getMinerSharesDirect getShares address limit =
     (case getShares 1 limit (miner_param address) of
        Inl e \<Rightarrow> []
      | Inr shares \<Rightarrow> sort_by_height_desc shares)"

definition maxAttempts :: nat where
  "maxAttempts = 5"

text \<open>\<^verbatim>\<open>Math.min(500 + (attempts * 200), 1000)\<close>\<close>

definition batchSize :: "nat \<Rightarrow> int" where
  "batchSize attempts = min (500 + int attempts * 200) 1000"

text \<open>The variables of the historical loop that survive an iteration.\<close>

record scan =
  allMinerShares :: "SideBlock list"
  currentFromHeight :: "int option"

text \<open>
  \<^verbatim>\<open>for (const share of filteredShares)
    if (!allMinerShares.some(existing => existing.template_id === share.template_id))
      allMinerShares.push(share)\<close>
\<close>

fun push_new :: "SideBlock list \<Rightarrow> SideBlock list \<Rightarrow> SideBlock list" where
  "push_new acc [] = acc"
| "push_new acc (share # rest) =
     push_new (if \<exists>existing \<in> set acc. template_id existing = template_id share
               then acc else acc @ [share]) rest"

text \<open>How one run of the loop body ends: by \<^verbatim>\<open>break\<close>, or by reaching the loop test.\<close>

datatype 'a iteration = Break 'a | Next 'a

text \<open>The trailing \<^verbatim>\<open>if (allMinerShares.length >= limit) break\<close>.\<close>

definition enough_check :: "int \<Rightarrow> scan \<Rightarrow> error + scan iteration" where
  "enough_check limit s =
     (if int (length (allMinerShares s)) \<ge> limit then Inr (Break s) else Inr (Next s))"

text \<open>
  Both height branches of the body do the same: take the minimum height of the whole
  unfiltered batch, move the cursor there when that is below the cursor (or the cursor is
  undefined), and \<^verbatim>\<open>break\<close> otherwise.
\<close>

definition advance_cursor :: "int \<Rightarrow> SideBlock list \<Rightarrow> scan \<Rightarrow> error + scan iteration" where
  "advance_cursor limit allShares s =
     (let minHeight = min_list (map side_height allShares)
      in if (case currentFromHeight s of None \<Rightarrow> True | Some h \<Rightarrow> minHeight < h)
         then enough_check limit (s\<lparr>currentFromHeight := Some minHeight\<rparr>)
         else Inr (Break s))"

text \<open>
  The loop body, entered with the already incremented \<^verbatim>\<open>attempts\<close>. A throwing
  \<^verbatim>\<open>getShares\<close> leaves the loop (and the function's \<^verbatim>\<open>try\<close> block).
\<close>

definition getMinerShares_body ::
  "shares_api \<Rightarrow> string \<Rightarrow> int \<Rightarrow> nat \<Rightarrow> scan \<Rightarrow> error + scan iteration"
where
  "getMinerShares_body getShares address limit attempts s =
     (case getShares attempts (batchSize attempts) None of
        Inl e \<Rightarrow> Inl e
      | Inr allShares \<Rightarrow>
          if allShares = [] then Inr (Break s)
          else
            let byMiner = filter (\<lambda>share. miner_address share = address) allShares;
                filteredShares =
                  (case currentFromHeight s of
                     None \<Rightarrow> byMiner
                   | Some h \<Rightarrow> filter (\<lambda>share. side_height share < h) byMiner);
                s1 = s\<lparr>allMinerShares := push_new (allMinerShares s) filteredShares\<rparr>
            in if filteredShares \<noteq> [] \<and> int (length (allMinerShares s1)) < limit
               then advance_cursor limit allShares s1
               else if filteredShares = []
               then advance_cursor limit allShares s1
               else enough_check limit s1)"

text \<open>
  \<^verbatim>\<open>while (allMinerShares.length < limit && attempts < maxAttempts) { attempts++; ... }\<close>.
  The result is the final number of attempts and the final variables, or the error thrown
  out of the loop.
\<close>

function getMinerShares_loop ::
  "shares_api \<Rightarrow> string \<Rightarrow> int \<Rightarrow> nat \<Rightarrow> scan \<Rightarrow> error + (nat \<times> scan)"
where
  "getMinerShares_loop getShares address limit attempts s =
     (if int (length (allMinerShares s)) < limit \<and> attempts < maxAttempts then
        (case getMinerShares_body getShares address limit (Suc attempts) s of
           Inl e \<Rightarrow> Inl e
         | Inr (Break s') \<Rightarrow> Inr (Suc attempts, s')
         | Inr (Next s') \<Rightarrow> getMinerShares_loop getShares address limit (Suc attempts) s')
      else Inr (attempts, s))"
  by pat_completeness auto
termination
  by (relation "measure (\<lambda>(getShares, address, limit, attempts, s). maxAttempts - attempts)")
     auto

declare getMinerShares_loop.simps [simp del]

text \<open>
  \<^verbatim>\<open>getMinerShares(address, limit, fromHeight?)\<close>: without a cursor (\<^verbatim>\<open>!fromHeight\<close>,
  which also holds for 0) the direct path; otherwise the loop, whose accumulated shares
  are sorted and cut to the limit. The \<^verbatim>\<open>catch\<close> around the whole body returns
  \<^verbatim>\<open>[]\<close>.
\<close>

definition getMinerShares ::
  "shares_api \<Rightarrow> string \<Rightarrow> int \<Rightarrow> int option \<Rightarrow> SideBlock list"
where
  "getMinerShares getShares address limit fromHeight =
     (if fromHeight = None \<or> fromHeight = Some 0
      then getMinerSharesDirect getShares address limit
      else
        (case getMinerShares_loop getShares address limit 0
                \<lparr>allMinerShares = [], currentFromHeight = fromHeight\<rparr> of
           Inl e \<Rightarrow> []
         | Inr (attempts, s) \<Rightarrow> js_slice0 (sort_by_height_desc (allMinerShares s)) limit))"

text \<open>
  The fields of a found block that the client reads: \<^verbatim>\<open>main_block.id\<close>,
  \<^verbatim>\<open>main_block.height\<close> and \<^verbatim>\<open>miner_address\<close>.
\<close>

record FoundBlock =
  block_id :: string
  block_height :: int
  block_miner_address :: string

type_synonym blocks_api = "nat \<Rightarrow> int \<Rightarrow> string option \<Rightarrow> error + FoundBlock list"

text \<open>\<^verbatim>\<open>Math.min(200 + (attempts * 100), 500)\<close>\<close>

definition blocks_batchSize :: "nat \<Rightarrow> int" where
  "blocks_batchSize attempts = min (200 + int attempts * 100) 500"

record block_scan =
  allMinerBlocks :: "FoundBlock list"
  blocks_currentFromHeight :: "int option"

fun push_new_block :: "FoundBlock list \<Rightarrow> FoundBlock list \<Rightarrow> FoundBlock list" where
  "push_new_block acc [] = acc"
| "push_new_block acc (block # rest) =
     push_new_block (if \<exists>existing \<in> set acc. block_id existing = block_id block
                     then acc else acc @ [block]) rest"

definition blocks_enough_check :: "int \<Rightarrow> block_scan \<Rightarrow> error + block_scan iteration" where
  "blocks_enough_check limit s =
     (if int (length (allMinerBlocks s)) \<ge> limit then Inr (Break s) else Inr (Next s))"

definition blocks_advance_cursor ::
  "int \<Rightarrow> FoundBlock list \<Rightarrow> block_scan \<Rightarrow> error + block_scan iteration"
where
  "blocks_advance_cursor limit allBlocks s =
     (let minHeight = min_list (map block_height allBlocks)
      in if (case blocks_currentFromHeight s of None \<Rightarrow> True | Some h \<Rightarrow> minHeight < h)
         then blocks_enough_check limit (s\<lparr>blocks_currentFromHeight := Some minHeight\<rparr>)
         else Inr (Break s))"

text \<open>The loop body of \<^verbatim>\<open>getMinerFoundBlocks\<close>; it has the shape of the one for shares.\<close>

definition getMinerFoundBlocks_body ::
  "blocks_api \<Rightarrow> string \<Rightarrow> int \<Rightarrow> nat \<Rightarrow> block_scan \<Rightarrow> error + block_scan iteration"
where
  "getMinerFoundBlocks_body getFoundBlocks address limit attempts s =
     (case getFoundBlocks attempts (blocks_batchSize attempts) None of
        Inl e \<Rightarrow> Inl e
      | Inr allBlocks \<Rightarrow>
          if allBlocks = [] then Inr (Break s)
          else
            let byMiner = filter (\<lambda>block. block_miner_address block = address) allBlocks;
                filteredBlocks =
                  (case blocks_currentFromHeight s of
                     None \<Rightarrow> byMiner
                   | Some h \<Rightarrow> filter (\<lambda>block. block_height block < h) byMiner);
                s1 = s\<lparr>allMinerBlocks := push_new_block (allMinerBlocks s) filteredBlocks\<rparr>
            in if filteredBlocks \<noteq> [] \<and> int (length (allMinerBlocks s1)) < limit
               then blocks_advance_cursor limit allBlocks s1
               else if filteredBlocks = []
               then blocks_advance_cursor limit allBlocks s1
               else blocks_enough_check limit s1)"

function getMinerFoundBlocks_loop ::
  "blocks_api \<Rightarrow> string \<Rightarrow> int \<Rightarrow> nat \<Rightarrow> block_scan \<Rightarrow> error + (nat \<times> block_scan)"
where
  "getMinerFoundBlocks_loop getFoundBlocks address limit attempts s =
     (if int (length (allMinerBlocks s)) < limit \<and> attempts < maxAttempts then
        (case getMinerFoundBlocks_body getFoundBlocks address limit (Suc attempts) s of
           Inl e \<Rightarrow> Inl e
         | Inr (Break s') \<Rightarrow> Inr (Suc attempts, s')
         | Inr (Next s') \<Rightarrow> getMinerFoundBlocks_loop getFoundBlocks address limit (Suc attempts) s')
      else Inr (attempts, s))"
  by pat_completeness auto
termination
  by (relation "measure (\<lambda>(getFoundBlocks, address, limit, attempts, s). maxAttempts - attempts)")
     auto

declare getMinerFoundBlocks_loop.simps [simp del]

text \<open>
  \<^verbatim>\<open>getMinerFoundBlocks(address, limit, fromHeight?)\<close>: always the loop, started with
  the cursor given (possibly undefined); the \<^verbatim>\<open>catch\<close> around it returns \<^verbatim>\<open>[]\<close>.
\<close>

definition getMinerFoundBlocks ::
  "blocks_api \<Rightarrow> string \<Rightarrow> int \<Rightarrow> int option \<Rightarrow> FoundBlock list"
where
  "getMinerFoundBlocks getFoundBlocks address limit fromHeight =
     (case getMinerFoundBlocks_loop getFoundBlocks address limit 0
             \<lparr>allMinerBlocks = [], blocks_currentFromHeight = fromHeight\<rparr> of
        Inl e \<Rightarrow> []
      | Inr (attempts, s) \<Rightarrow>
          js_slice0 (sort_key (\<lambda>block. - block_height block) (allMinerBlocks s)) limit)"

text \<open>
  \<^verbatim>\<open>getMinerPayouts(address, limit?)\<close>. \<open>json\<close> stands for \<^verbatim>\<open>response.json()\<close>: it
  rejects (a body that does not parse), or gives the array of payouts in the body, or
  nothing when the body is not an array. The \<^verbatim>\<open>catch\<close> holds both the fetch and the
  parse: an error whose message includes \<open>404\<close> is answered with the empty list; any
  other error is thrown again with a prefix.
\<close>

record MinerPayout =
  coinbase_reward :: int
  payout_height :: int

definition payouts_catch :: "error \<Rightarrow> error + MinerPayout list" where
  "payouts_catch e =
     (if js_includes (message e) ''404'' then Inr []
      else Inl (Error (''Failed to fetch miner payouts: '' @ message e)))"

definition getMinerPayouts ::
  "(int \<Rightarrow> fetch_outcome) \<Rightarrow> RetryConfig \<Rightarrow>
   (fetch_outcome \<Rightarrow> error + MinerPayout list option) \<Rightarrow> error + MinerPayout list"
where
  "getMinerPayouts fetch retryConfig json =
     (case fetch_result (fetchWithRetry fetch retryConfig) of
        Inr response \<Rightarrow>
          (case json response of
             Inl e \<Rightarrow> payouts_catch e
           | Inr (Some payouts) \<Rightarrow> Inr payouts
           | Inr None \<Rightarrow> Inr [])
      | Inl e \<Rightarrow> payouts_catch e)"

section \<open>Local cache (src/lib/storage.ts)\<close>

text \<open>
  The keys of \<^verbatim>\<open>STORES\<close>, in the order of the object literal (the order in which
  \<^verbatim>\<open>Object.entries(STORES)\<close> visits them), and the partition names they map to.
\<close>

datatype store_key = POOL_INFO | MINER_INFO | SHARES | BLOCKS | PAYOUTS | METADATA

definition STORES :: "store_key \<Rightarrow> string" where
  "STORES k =
     (case k of POOL_INFO \<Rightarrow> ''poolInfo'' | MINER_INFO \<Rightarrow> ''minerInfo'' | SHARES \<Rightarrow> ''shares''
      | BLOCKS \<Rightarrow> ''blocks'' | PAYOUTS \<Rightarrow> ''payouts'' | METADATA \<Rightarrow> ''metadata'')"

definition STORES_entries :: "store_key list" where
  "STORES_entries = [POOL_INFO, MINER_INFO, SHARES, BLOCKS, PAYOUTS, METADATA]"

text \<open>Retention periods in milliseconds; \<^verbatim>\<open>RETENTION_PERIODS\<close> has no entry for the metadata.\<close>

definition RETENTION_PERIODS :: "store_key \<Rightarrow> int option" where
  "RETENTION_PERIODS k =
     (case k of
        POOL_INFO \<Rightarrow> Some (24 * 60 * 60 * 1000)
      | MINER_INFO \<Rightarrow> Some (7 * 24 * 60 * 60 * 1000)
      | SHARES \<Rightarrow> Some (30 * 24 * 60 * 60 * 1000)
      | BLOCKS \<Rightarrow> Some (365 * 24 * 60 * 60 * 1000)
      | PAYOUTS \<Rightarrow> Some (365 * 24 * 60 * 60 * 1000)
      | METADATA \<Rightarrow> None)"

text \<open>The values kept in the cache (the fields the observer reads).\<close>

record PoolInfo =
  sidechain_height :: int
  sidechain_miners :: int
  mainchain_height :: int

record MinerInfo =
  info_address :: string
  last_share_height :: int
  last_share_timestamp :: int

record StorageMetadata =
  totalSize :: int
  lastCleanup :: int
  dataVersion :: string

datatype payload =
    PoolInfoData PoolInfo
  | MinerInfoData MinerInfo
  | ShareData SideBlock
  | BlockData FoundBlock
  | PayoutsData "MinerPayout list"
  | MetadataData StorageMetadata

text \<open>\<^verbatim>\<open>StoredData<T>\<close>; the field \<^verbatim>\<open>id\<close> is written \<open>id'\<close>.\<close>

record StoredData =
  id' :: string
  data :: payload
  timestamp :: int
  lastAccessed :: int

text \<open>
  An object store of the browser database: the indexes created on it (name and key path)
  and its records. Every store is created with \<^verbatim>\<open>keyPath: 'id'\<close>, so it holds at
  most one record per \<^verbatim>\<open>id\<close>.
\<close>

record object_store =
  indexes :: "(string \<times> string) list"
  records :: "StoredData list"

type_synonym database = "store_key \<Rightarrow> object_store"

text \<open>The schema that the \<^verbatim>\<open>upgrade\<close> callback of \<^verbatim>\<open>init\<close> creates in a new database.\<close>

definition upgrade :: database where
  "upgrade k =
     (case k of
        POOL_INFO \<Rightarrow>
          \<lparr>indexes = [(''timestamp'', ''timestamp''), (''apiUrl'', ''apiUrl'')], records = []\<rparr>
      | MINER_INFO \<Rightarrow>
          \<lparr>indexes = [(''timestamp'', ''timestamp''), (''apiUrl'', ''apiUrl''),
                      (''address'', ''address'')], records = []\<rparr>
      | SHARES \<Rightarrow>
          \<lparr>indexes = [(''timestamp'', ''timestamp''), (''apiUrl'', ''apiUrl'')], records = []\<rparr>
      | BLOCKS \<Rightarrow>
          \<lparr>indexes = [(''timestamp'', ''timestamp''), (''apiUrl'', ''apiUrl'')], records = []\<rparr>
      | PAYOUTS \<Rightarrow>
          \<lparr>indexes = [(''timestamp'', ''timestamp''), (''apiUrl'', ''apiUrl''),
                      (''address'', ''address'')], records = []\<rparr>
      | METADATA \<Rightarrow> \<lparr>indexes = [], records = []\<rparr>)"

text \<open>
  The storage object: \<^verbatim>\<open>this.db\<close> (null until \<^verbatim>\<open>init\<close> has opened the database)
  and whether \<^verbatim>\<open>window\<close> is defined where the code runs.
\<close>

record P2PoolStorage =
  db :: "database option"
  window_defined :: bool

text \<open>
  \<^verbatim>\<open>init\<close>: without \<^verbatim>\<open>window\<close> or \<^verbatim>\<open>indexedDB\<close> it returns with \<^verbatim>\<open>db\<close> still
  null; a failing \<^verbatim>\<open>openDB\<close> is logged and leaves it null as well. \<open>opened\<close> is what
  \<^verbatim>\<open>openDB\<close> does: it fails, or yields the database (the schema above when it is new).
\<close>

definition init :: "bool \<Rightarrow> bool \<Rightarrow> error + database \<Rightarrow> P2PoolStorage" where
  "init has_window has_indexedDB opened =
     (if \<not> has_window \<or> \<not> has_indexedDB then \<lparr>db = None, window_defined = has_window\<rparr>
      else (case opened of
              Inl e \<Rightarrow> \<lparr>db = None, window_defined = has_window\<rparr>
            | Inr d \<Rightarrow> \<lparr>db = Some d, window_defined = has_window\<rparr>))"

text \<open>
  \<^verbatim>\<open>ensureReady\<close>: after awaiting \<^verbatim>\<open>initPromise\<close>,
  \<^verbatim>\<open>if (!this.db) throw new Error('Storage not initialized')\<close>.
\<close>

definition ensureReady :: "P2PoolStorage \<Rightarrow> error + unit" where
  "ensureReady st = (if db st = None then Inl (Error ''Storage not initialized'') else Inr ())"

text \<open>\<^verbatim>\<open>objectStore.put\<close> on a store with a key path: insert, or replace the record of that key.\<close>

definition idb_put :: "StoredData \<Rightarrow> StoredData list \<Rightarrow> StoredData list" where
  "idb_put r rs =
     (if \<exists>x \<in> set rs. id' x = id' r
      then map (\<lambda>x. if id' x = id' r then r else x) rs
      else rs @ [r])"

definition put_in :: "database \<Rightarrow> store_key \<Rightarrow> StoredData \<Rightarrow> database" where
  "put_in d storeName r = d(storeName := (d storeName)\<lparr>records := idb_put r (records (d storeName))\<rparr>)"

text \<open>
  \<^verbatim>\<open>store(storeName, key, data)\<close>. \<open>now\<close> is the reading of \<^verbatim>\<open>Date.now()\<close> during
  the call. The test \<^verbatim>\<open>if (!this.db) return\<close> follows \<^verbatim>\<open>await this.ensureReady()\<close>.
\<close>

definition store :: "P2PoolStorage \<Rightarrow> store_key \<Rightarrow> string \<Rightarrow> payload \<Rightarrow> int \<Rightarrow> error + P2PoolStorage" where
  "store st storeName key dat now =
     (case ensureReady st of
        Inl e \<Rightarrow> Inl e
      | Inr _ \<Rightarrow>
          (case db st of
             None \<Rightarrow> Inr st
           | Some d \<Rightarrow>
               Inr (st\<lparr>db := Some (put_in d storeName
                      \<lparr>id' = key, data = dat, timestamp = now, lastAccessed = now\<rparr>)\<rparr>)))"

text \<open>\<^verbatim>\<open>retrieve(storeName, key)\<close>: the data of the record, whose \<^verbatim>\<open>lastAccessed\<close> is refreshed.\<close>

definition retrieve ::
  "P2PoolStorage \<Rightarrow> store_key \<Rightarrow> string \<Rightarrow> int \<Rightarrow> error + (P2PoolStorage \<times> payload option)"
where
  "retrieve st storeName key now =
     (case ensureReady st of
        Inl e \<Rightarrow> Inl e
      | Inr _ \<Rightarrow>
          (case db st of
             None \<Rightarrow> Inr (st, None)
           | Some d \<Rightarrow>
               (case find (\<lambda>r. id' r = key) (records (d storeName)) of
                  None \<Rightarrow> Inr (st, None)
                | Some result \<Rightarrow>
                    Inr (st\<lparr>db := Some (put_in d storeName (result\<lparr>lastAccessed := now\<rparr>))\<rparr>,
                         Some (data result)))))"

definition storePoolInfo :: "P2PoolStorage \<Rightarrow> string \<Rightarrow> PoolInfo \<Rightarrow> int \<Rightarrow> error + P2PoolStorage" where
  "storePoolInfo st apiUrl poolInfo now =
     (if \<not> window_defined st then Inr st
      else store st POOL_INFO (''pool_'' @ apiUrl) (PoolInfoData poolInfo) now)"

definition getPoolInfo ::
  "P2PoolStorage \<Rightarrow> string \<Rightarrow> int \<Rightarrow> error + (P2PoolStorage \<times> payload option)"
where
  "getPoolInfo st apiUrl now =
     (if \<not> window_defined st then Inr (st, None)
      else retrieve st POOL_INFO (''pool_'' @ apiUrl) now)"

definition storeMinerInfo ::
  "P2PoolStorage \<Rightarrow> string \<Rightarrow> string \<Rightarrow> MinerInfo \<Rightarrow> int \<Rightarrow> error + P2PoolStorage"
where
  "storeMinerInfo st apiUrl addr minerInfo now =
     store st MINER_INFO (''miner_'' @ apiUrl @ ''_'' @ addr) (MinerInfoData minerInfo) now"

text \<open>\<^verbatim>\<open>`share_${apiUrl}_${share.side_height}_${share.template_id}`\<close>\<close>

definition share_key :: "string \<Rightarrow> SideBlock \<Rightarrow> string" where
  "share_key apiUrl share =
     ''share_'' @ apiUrl @ ''_'' @ string_of_int (side_height share) @ ''_'' @ template_id share"

definition share_record :: "string \<Rightarrow> int \<Rightarrow> SideBlock \<Rightarrow> StoredData" where
  "share_record apiUrl now share =
     \<lparr>id' = share_key apiUrl share, data = ShareData share, timestamp = now, lastAccessed = now\<rparr>"

text \<open>
  \<^verbatim>\<open>storeShares(apiUrl, shares)\<close>: one \<^verbatim>\<open>put\<close> per share, in order, in one transaction.
\<close>

definition storeShares ::
  "P2PoolStorage \<Rightarrow> string \<Rightarrow> SideBlock list \<Rightarrow> int \<Rightarrow> error + P2PoolStorage"
where
  "storeShares st apiUrl shares now =
     (case ensureReady st of
        Inl e \<Rightarrow> Inl e
      | Inr _ \<Rightarrow>
          (case db st of
             None \<Rightarrow> Inr st
           | Some d \<Rightarrow>
               if shares = [] then Inr st
               else Inr (st\<lparr>db := Some (fold (\<lambda>share d'. put_in d' SHARES (share_record apiUrl now share))
                                           shares d)\<rparr>)))"

text \<open>
  \<^verbatim>\<open>objectStore.index(name)\<close> throws a \<^verbatim>\<open>NotFoundError\<close> when the store has no index
  of that name; otherwise the index orders the records by the value at its key path.
\<close>

definition idb_index :: "object_store \<Rightarrow> string \<Rightarrow> error + string" where
  "idb_index os name =
     (case map_of (indexes os) name of
        None \<Rightarrow> Inl (Error ''NotFoundError'')
      | Some path \<Rightarrow> Inr path)"

datatype idb_key = NumKey int | StrKey string

text \<open>The value of a stored record at a key path; a record without that property is not indexed.\<close>

definition key_at :: "string \<Rightarrow> StoredData \<Rightarrow> idb_key option" where
  "key_at path r =
     (if path = ''id'' then Some (StrKey (id' r))
      else if path = ''timestamp'' then Some (NumKey (timestamp r))
      else if path = ''lastAccessed'' then Some (NumKey (lastAccessed r))
      else None)"

text \<open>
  \<^verbatim>\<open>getSharesByMiner\<close>: opens the index \<^verbatim>\<open>'miner_address'\<close> of the shares store,
  reads up to \<open>limit\<close> records whose index key is the address, sorts them by write time
  (newest first) and returns their data.
\<close>

definition getSharesByMiner ::
  "P2PoolStorage \<Rightarrow> string \<Rightarrow> string \<Rightarrow> int \<Rightarrow> error + payload list"
where
  "getSharesByMiner st apiUrl addr limit =
     (case ensureReady st of
        Inl e \<Rightarrow> Inl e
      | Inr _ \<Rightarrow>
          (case db st of
             None \<Rightarrow> Inr []
           | Some d \<Rightarrow>
               (case idb_index (d SHARES) ''miner_address'' of
                  Inl e \<Rightarrow> Inl e
                | Inr path \<Rightarrow>
                    let results = take (nat limit)
                          (filter (\<lambda>r. key_at path r = Some (StrKey addr)) (records (d SHARES)))
                    in Inr (js_slice0 (map data (sort_key (\<lambda>r. - timestamp r) results)) limit))))"

text \<open>
  The cursor loop of \<^verbatim>\<open>cleanup\<close>:
  \<^verbatim>\<open>const cursor = await index.openCursor(range)
  while (cursor) { await cursor.delete(); deletedCount++; await cursor.continue() }\<close>.
  \<^verbatim>\<open>cursor\<close> is a constant: when \<^verbatim>\<open>openCursor\<close> yields a cursor the test stays true,
  so the loop deletes the record under the cursor, advances, and after the last record of
  the range calls \<^verbatim>\<open>cursor.delete()\<close> on the exhausted cursor, which throws
  \<^verbatim>\<open>InvalidStateError\<close>. The first argument is the list of records still ahead of the
  cursor; the result is the error, the records left in the store and the counter.
\<close>

fun cursor_loop :: "StoredData list \<Rightarrow> StoredData list \<Rightarrow> nat \<Rightarrow> error \<times> StoredData list \<times> nat" where
  "cursor_loop [] rs deletedCount = (Error ''InvalidStateError'', rs, deletedCount)"
| "cursor_loop (c # ahead) rs deletedCount =
     cursor_loop ahead (filter (\<lambda>r. id' r \<noteq> id' c) rs) (Suc deletedCount)"

text \<open>
  One partition of \<^verbatim>\<open>cleanup\<close>. \<^verbatim>\<open>IDBKeyRange.upperBound(cutoffTime)\<close> is closed: it
  holds the keys \<open>\<le> cutoffTime\<close>. \<^verbatim>\<open>openCursor\<close> yields null when no record is in range.
\<close>

definition in_upperBound :: "int \<Rightarrow> idb_key option \<Rightarrow> bool" where
  "in_upperBound cutoffTime k = (case k of Some (NumKey t) \<Rightarrow> t \<le> cutoffTime | _ \<Rightarrow> False)"

definition cleanup_store :: "int \<Rightarrow> object_store \<Rightarrow> nat \<Rightarrow> error option \<times> object_store \<times> nat" where
  "cleanup_store cutoffTime os deletedCount =
     (case idb_index os ''timestamp'' of
        Inl e \<Rightarrow> (Some e, os, deletedCount)
      | Inr path \<Rightarrow>
          let inRange = sort_key timestamp
                (filter (\<lambda>r. in_upperBound cutoffTime (key_at path r)) (records os))
          in if inRange = [] then (None, os, deletedCount)
             else (case cursor_loop inRange (records os) deletedCount of
                     (e, rs, n) \<Rightarrow> (Some e, os\<lparr>records := rs\<rparr>, n)))"

text \<open>
  The \<^verbatim>\<open>for\<close> loop over \<^verbatim>\<open>Object.entries(STORES)\<close> inside the \<^verbatim>\<open>try\<close> block: the
  metadata partition is skipped, and an error thrown in one partition ends the loop.
\<close>

fun cleanup_stores :: "store_key list \<Rightarrow> int \<Rightarrow> database \<Rightarrow> nat \<Rightarrow> error option \<times> database \<times> nat" where
  "cleanup_stores [] now d deletedCount = (None, d, deletedCount)"
| "cleanup_stores (storeKey # rest) now d deletedCount =
     (if STORES storeKey = STORES METADATA then cleanup_stores rest now d deletedCount
      else
        (case RETENTION_PERIODS storeKey of
           None \<Rightarrow> (Some (Error ''DataError''), d, deletedCount)
         | Some retentionPeriod \<Rightarrow>
             (case cleanup_store (now - retentionPeriod) (d storeKey) deletedCount of
                (Some e, os, n) \<Rightarrow> (Some e, d(storeKey := os), n)
              | (None, os, n) \<Rightarrow> cleanup_stores rest now (d(storeKey := os)) n)))"

text \<open>\<^verbatim>\<open>calculateStorageSize\<close>: 1024 bytes per record.\<close>

definition calculateStorageSize :: "database \<Rightarrow> int" where
  "calculateStorageSize d = (\<Sum>k \<leftarrow> STORES_entries. int (length (records (d k))) * 1024)"

text \<open>
  \<^verbatim>\<open>cleanup()\<close>: the \<^verbatim>\<open>catch\<close> logs an error of the partition loop and returns; only a
  run without error goes on to write the metadata record.
\<close>

definition cleanup :: "P2PoolStorage \<Rightarrow> int \<Rightarrow> error + P2PoolStorage" where
  "cleanup st now =
     (case ensureReady st of
        Inl e \<Rightarrow> Inl e
      | Inr _ \<Rightarrow>
          (case db st of
             None \<Rightarrow> Inr st
           | Some d \<Rightarrow>
               (case cleanup_stores STORES_entries now d 0 of
                  (Some e, d', n) \<Rightarrow> Inr (st\<lparr>db := Some d'\<rparr>)
                | (None, d', n) \<Rightarrow>
                    (case store (st\<lparr>db := Some d'\<rparr>) METADATA ''global''
                            (MetadataData \<lparr>totalSize = calculateStorageSize d', lastCleanup = now,
                                           dataVersion = ''1.0''\<rparr>) now of
                       Inl e \<Rightarrow> Inr (st\<lparr>db := Some d'\<rparr>)
                     | Inr st' \<Rightarrow> Inr st'))))"

text \<open>A storage whose database, if it was opened, has the indexes that \<^verbatim>\<open>init\<close> creates.\<close>

definition schema_created :: "P2PoolStorage \<Rightarrow> bool" where
  "schema_created st =
     (case db st of
        None \<Rightarrow> True
      | Some d \<Rightarrow> list_all (\<lambda>k. indexes (d k) = indexes (upgrade k)) STORES_entries)"

section \<open>Data orchestrator (useOptimizedP2PoolData)\<close>

text \<open>
  The query function of \<^verbatim>\<open>poolInfoQuery\<close>. \<open>fetched\<close> is the outcome of
  \<^verbatim>\<open>api.getPoolInfo()\<close>. The \<^verbatim>\<open>try\<close> block holds the fetch and the write to the
  cache; the \<^verbatim>\<open>catch\<close> block reads the cache and returns the cached data when there is
  some, and rethrows the caught error otherwise.
\<close>

definition poolInfoQuery_queryFn ::
  "error + PoolInfo \<Rightarrow> P2PoolStorage \<Rightarrow> string \<Rightarrow> int \<Rightarrow> (error + payload) \<times> P2PoolStorage"
where
  "poolInfoQuery_queryFn fetched st apiUrl now =
     (case (case fetched of
              Inl e \<Rightarrow> Inl e
            | Inr dat \<Rightarrow>
                (case storePoolInfo st apiUrl dat now of
                   Inl e \<Rightarrow> Inl e
                 | Inr st' \<Rightarrow> Inr (PoolInfoData dat, st'))) of
        Inr (dat, st') \<Rightarrow> (Inr dat, st')
      | Inl err \<Rightarrow>
          (case getPoolInfo st apiUrl now of
             Inl e \<Rightarrow> (Inl e, st)
           | Inr (st', cachedData) \<Rightarrow>
               (case cachedData of
                  Some c \<Rightarrow> (Inr c, st')
                | None \<Rightarrow> (Inl err, st'))))"

text \<open>
  What the hook reads from a query of the query library (TanStack Query, a dependency):
  the last data, the last error, and \<^verbatim>\<open>dataUpdatedAt\<close>, the time at which the query
  function last resolved (0 before the first time). When the query function resolves, the
  library stores the data, clears the error and sets \<^verbatim>\<open>dataUpdatedAt\<close> to the current
  time; when it rejects (for the last time, after the library's own retries), the library
  stores the error and keeps the rest.
\<close>

record query =
  q_data :: "payload option"
  q_error :: "error option"
  dataUpdatedAt :: int

definition settle :: "error + payload \<Rightarrow> int \<Rightarrow> query \<Rightarrow> query" where
  "settle r now q =
     (case r of
        Inr v \<Rightarrow> q\<lparr>q_data := Some v, q_error := None, dataUpdatedAt := now\<rparr>
      | Inl e \<Rightarrow> q\<lparr>q_error := Some e\<rparr>)"

text \<open>One refresh of the pool-info query at time \<open>now\<close>.\<close>

definition refresh_poolInfo ::
  "error + PoolInfo \<Rightarrow> string \<Rightarrow> int \<Rightarrow> P2PoolStorage \<Rightarrow> query \<Rightarrow> P2PoolStorage \<times> query"
where
  "refresh_poolInfo fetched apiUrl now st q =
     (case poolInfoQuery_queryFn fetched st apiUrl now of (r, st') \<Rightarrow> (st', settle r now q))"

text \<open>
  \<^verbatim>\<open>const times = [...dataUpdatedAt of every query].filter(Boolean)
  return times.length > 0 ? new Date(Math.max(...times)) : null\<close>
\<close>

definition lastUpdate :: "query list \<Rightarrow> int option" where
  "lastUpdate queries =
     (let times = filter (\<lambda>t. t \<noteq> 0) (map dataUpdatedAt queries)
      in if times = [] then None else Some (fold max times (hd times)))"

text \<open>
  \<^verbatim>\<open>const errors = [...error of every query].filter(Boolean)
  return errors.length > 0 ? errors[0]?.message || 'Unknown error' : null\<close>
\<close>

definition error_field :: "query list \<Rightarrow> string option" where
  "error_field queries =
     (case filter (\<lambda>e. e \<noteq> None) (map q_error queries) of
        [] \<Rightarrow> None
      | e # _ \<Rightarrow>
          (case e of
             None \<Rightarrow> None
           | Some err \<Rightarrow> Some (if message err = [] then ''Unknown error'' else message err)))"

text \<open>
  The query function of \<^verbatim>\<open>minerSharesQuery\<close>. Its result records where the shares came
  from: the network, or the cache read in the \<^verbatim>\<open>catch\<close> block.
\<close>

datatype served = Fresh "SideBlock list" | Cached "payload list"

definition DEFAULT_SHARES_LIMIT :: int where
  "DEFAULT_SHARES_LIMIT = 30"

definition minerSharesQuery_queryFn ::
  "shares_api \<Rightarrow> P2PoolStorage \<Rightarrow> string \<Rightarrow> string \<Rightarrow> int \<Rightarrow> (error + served) \<times> P2PoolStorage"
where
  "minerSharesQuery_queryFn getShares st apiUrl minerAddress now =
     (if minerAddress = [] then (Inl (Error ''No miner address provided''), st)
      else
        let shares = getMinerSharesDirect getShares minerAddress DEFAULT_SHARES_LIMIT
        in (case storeShares st apiUrl shares now of
              Inr st' \<Rightarrow> (Inr (Fresh shares), st')
            | Inl err \<Rightarrow>
                (case getSharesByMiner st apiUrl minerAddress DEFAULT_SHARES_LIMIT of
                   Inl e \<Rightarrow> (Inl e, st)
                 | Inr cachedShares \<Rightarrow>
                     if cachedShares \<noteq> [] then (Inr (Cached cachedShares), st)
                     else (Inl err, st))))"

section \<open>Properties of the retry loop\<close>

lemma calculateDelay_nat:
  "1 \<le> n \<Longrightarrow>
   calculateDelay n c = min (baseDelay c * backoffMultiplier c ^ nat (n - 1)) (maxDelay c)"
  by (simp add: calculateDelay_def power_int_def)

lemma calculateDelay_default_capped:
  assumes "5 \<le> n"
  shows "calculateDelay n DEFAULT_RETRY_CONFIG = 10000"
proof -
  have "(2::real) ^ 4 \<le> 2 ^ nat (n - 1)"
    using assms by (intro power_increasing) auto
  then have "(10000::real) \<le> 1000 * 2 ^ nat (n - 1)" by simp
  then show ?thesis using assms
    by (simp add: calculateDelay_nat DEFAULT_RETRY_CONFIG_def)
qed

lemma attempts_from_ge:
  "n \<le> fetch_count (fetchWithRetry_from fetch c a le n sl)"
proof (induction fetch c a le n sl rule: fetchWithRetry_from.induct)
  case (1 fetch c a le n sl)
  show ?case
    apply (subst fetchWithRetry_from.simps)
    using 1 by (auto split: sum.splits dest: Suc_leD)
qed

lemma attempts_from_gt:
  "a \<le> maxRetries c + 1 \<Longrightarrow> Suc n \<le> fetch_count (fetchWithRetry_from fetch c a le n sl)"
  apply (subst fetchWithRetry_from.simps)
  using attempts_from_ge [of "Suc n" fetch c "a + 1" _ "sl @ [calculateDelay a c]"]
  by (auto split: sum.splits dest: Suc_leD)

lemma attempts_from_le:
  "fetch_count (fetchWithRetry_from fetch c a le n sl) \<le> n + nat (maxRetries c + 2 - a)"
proof (induction fetch c a le n sl rule: fetchWithRetry_from.induct)
  case (1 fetch c a le n sl)
  show ?case
    apply (subst fetchWithRetry_from.simps)
    using 1 by (auto split: sum.splits simp: nat_le_iff)
qed

text \<open>The delays slept are exactly those computed for the attempts that were retried.\<close>

lemma sleeps_from:
  "sleeps (fetchWithRetry_from fetch c a le n sl) =
     sl @ map (\<lambda>k. calculateDelay k c)
            [a .. a + int (fetch_count (fetchWithRetry_from fetch c a le n sl)) - int n - 2]"
proof (induction fetch c a le n sl rule: fetchWithRetry_from.induct)
  case (1 fetch c a le n sl)
  show ?case
  proof (cases "a \<le> maxRetries c + 1")
    case False
    then show ?thesis by (subst (1 2) fetchWithRetry_from.simps) simp
  next
    case True
    show ?thesis
    proof (cases "attempt_once (fetch a)")
      case (Inr r)
      with True show ?thesis by (subst (1 2) fetchWithRetry_from.simps) simp
    next
      case (Inl err)
      show ?thesis
      proof (cases "shouldRetry c a err")
        case False
        with True Inl show ?thesis by (subst (1 2) fetchWithRetry_from.simps) simp
      next
        case sr: True
        let ?r = "fetchWithRetry_from fetch c (a + 1) (Some err) (Suc n) (sl @ [calculateDelay a c])"
        have eq: "fetchWithRetry_from fetch c a le n sl = ?r"
          using True Inl sr by (subst fetchWithRetry_from.simps) simp
        have "a + 1 \<le> maxRetries c + 1" using sr by (simp add: shouldRetry_def)
        then have ge: "Suc (Suc n) \<le> fetch_count ?r" by (rule attempts_from_gt)
        have IH: "sleeps ?r = (sl @ [calculateDelay a c]) @
            map (\<lambda>k. calculateDelay k c) [a + 1 .. a + 1 + int (fetch_count ?r) - int (Suc n) - 2]"
          using 1 [OF True Inl] sr by simp
        have hi: "a + 1 + int (fetch_count ?r) - int (Suc n) - 2 = a + int (fetch_count ?r) - int n - 2"
          by simp
        have "a \<le> a + int (fetch_count ?r) - int n - 2" using ge by linarith
        then have "[a .. a + int (fetch_count ?r) - int n - 2] =
                   a # [a + 1 .. a + int (fetch_count ?r) - int n - 2]"
          by (rule upto_rec1)
        then have "[a .. a + int (fetch_count ?r) - int n - 2] =
                   a # [a + 1 .. a + 1 + int (fetch_count ?r) - int (Suc n) - 2]"
          by (simp only: hi)
        with IH show ?thesis unfolding eq by simp
      qed
    qed
  qed
qed

lemma sleeps_fetchWithRetry:
  "sleeps (fetchWithRetry fetch c) =
     map (\<lambda>k. calculateDelay k c) [1 .. int (fetch_count (fetchWithRetry fetch c)) - 1]"
  using sleeps_from [of fetch c 1 None 0 "[]"] by (simp add: fetchWithRetry_def)

text \<open>When every attempt fails retryably the loop runs to its last iteration.\<close>

lemma exhausts_from:
  "(\<forall>k. retryable_failure c (fetch k)) \<Longrightarrow> a \<le> maxRetries c + 1 \<Longrightarrow>
   fetch_count (fetchWithRetry_from fetch c a le n sl) = n + nat (maxRetries c + 2 - a) \<and>
   fetch_result (fetchWithRetry_from fetch c a le n sl) = attempt_once (fetch (maxRetries c + 1)) \<and>
   isl (fetch_result (fetchWithRetry_from fetch c a le n sl))"
proof (induction fetch c a le n sl rule: fetchWithRetry_from.induct)
  case (1 fetch c a le n sl)
  note all = "1.prems"(1) and le = "1.prems"(2)
  from all have "retryable_failure c (fetch a)" by simp
  then obtain err where err: "attempt_once (fetch a) = Inl err"
    and p: "case retryCondition c of None \<Rightarrow> True | Some p \<Rightarrow> p err"
    by (auto simp: retryable_failure_def split: sum.splits)
  show ?case
  proof (cases "a \<le> maxRetries c")
    case True
    then have sr: "shouldRetry c a err" using p by (simp add: shouldRetry_def)
    have eq: "fetchWithRetry_from fetch c a le n sl =
              fetchWithRetry_from fetch c (a + 1) (Some err) (Suc n) (sl @ [calculateDelay a c])"
      using le err sr by (subst fetchWithRetry_from.simps) simp
    have "n + nat (maxRetries c + 2 - a) = Suc n + nat (maxRetries c + 2 - (a + 1))"
      using True by linarith
    moreover have "a + 1 \<le> maxRetries c + 1" using True by simp
    ultimately show ?thesis
      using "1.IH" [OF le err _ all] sr unfolding eq by auto
  next
    case False
    with le have a: "a = maxRetries c + 1" by simp
    have "\<not> shouldRetry c a err" using False by (simp add: shouldRetry_def)
    then show ?thesis using le err a
      by (subst (1 2 3) fetchWithRetry_from.simps) simp
  qed
qed

text \<open>
  C1. The delay computed after failed attempt \<open>n\<close> (counted from 1) is
  \<open>min (baseDelay * backoffMultiplier ^ (n - 1)) maxDelay\<close>, and these are the delays the
  retry loop sleeps, in order. Under the default policy the attempts 1, 2, 3, 4 give
  1000, 2000, 4000 and 8000 ms, and every later attempt gives the cap of 10000 ms.
\<close>

theorem calculateDelay_backoff:
  "(1 \<le> n \<longrightarrow>
      calculateDelay n c = min (baseDelay c * backoffMultiplier c ^ nat (n - 1)) (maxDelay c)) \<and>
   sleeps (fetchWithRetry fetch c) =
      map (\<lambda>k. calculateDelay k c) [1 .. int (fetch_count (fetchWithRetry fetch c)) - 1] \<and>
   calculateDelay 1 DEFAULT_RETRY_CONFIG = 1000 \<and>
   calculateDelay 2 DEFAULT_RETRY_CONFIG = 2000 \<and>
   calculateDelay 3 DEFAULT_RETRY_CONFIG = 4000 \<and>
   calculateDelay 4 DEFAULT_RETRY_CONFIG = 8000 \<and>
   (5 \<le> n \<longrightarrow> calculateDelay n DEFAULT_RETRY_CONFIG = 10000)"
proof -
  have "calculateDelay 1 DEFAULT_RETRY_CONFIG = 1000"
    and "calculateDelay 2 DEFAULT_RETRY_CONFIG = 2000"
    and "calculateDelay 3 DEFAULT_RETRY_CONFIG = 4000"
    and "calculateDelay 4 DEFAULT_RETRY_CONFIG = 8000"
    by (simp_all add: calculateDelay_def DEFAULT_RETRY_CONFIG_def)
  then show ?thesis
    using calculateDelay_nat [of n c] calculateDelay_default_capped [of n]
      sleeps_fetchWithRetry [of fetch c]
    by blast
qed

theorem calculateDelay_backoff_witness:
  "calculateDelay 6 \<lparr>maxRetries = 5, baseDelay = 3, maxDelay = 500, backoffMultiplier = 3,
                     retryCondition = None\<rparr> = 500 \<and>
   calculateDelay 3 \<lparr>maxRetries = 5, baseDelay = 3, maxDelay = 500, backoffMultiplier = 3,
                     retryCondition = None\<rparr> = 27 \<and>
   calculateDelay 6 DEFAULT_RETRY_CONFIG = 10000 \<and>
   sleeps (fetchWithRetry (\<lambda>k. if k < 3 then Rejects (Error ''Failed to fetch'')
                                else Response 200 ''OK'') DEFAULT_RETRY_CONFIG) = [1000, 2000]"
proof -
  let ?c = "\<lparr>maxRetries = 5, baseDelay = 3, maxDelay = 500, backoffMultiplier = 3,
             retryCondition = None\<rparr>"
  let ?f = "\<lambda>k::int. if k < 3 then Rejects (Error ''Failed to fetch'') else Response 200 ''OK''"
  have att: "fetch_count (fetchWithRetry ?f DEFAULT_RETRY_CONFIG) = 3"
    by (simp add: fetchWithRetry_def fetchWithRetry_from.simps DEFAULT_RETRY_CONFIG_def
        attempt_once_def ok_def shouldRetry_def default_retryCondition_def)
  have up: "[1 .. (2::int)] = [1, 2]" by (simp add: upto_rec1)
  have a: "calculateDelay 6 ?c = 500" using calculateDelay_backoff [of 6 ?c] by simp
  have b: "calculateDelay 3 ?c = 27" using calculateDelay_backoff [of 3 ?c] by simp
  have "(5::int) \<le> 6" by simp
  with calculateDelay_backoff [of 6 ?c ?f]
  have c: "calculateDelay 6 DEFAULT_RETRY_CONFIG = 10000" by blast
  have d: "sleeps (fetchWithRetry ?f DEFAULT_RETRY_CONFIG) = [1000, 2000]"
    using calculateDelay_backoff [of 1 DEFAULT_RETRY_CONFIG ?f] by (simp add: att up)
  from a b c d show ?thesis by simp
qed

text \<open>
  C2. Under a policy with \<open>maxRetries = m\<close> the client never calls \<^verbatim>\<open>fetch\<close> more
  than \<open>m + 1\<close> times; when every attempt fails with a retryable error it makes exactly
  \<open>m + 1\<close> attempts and then fails with the error of the last attempt. For
  \<open>maxRetries = 3\<close> that is exactly 4 attempts.
\<close>

theorem fetchWithRetry_exhausts:
  "maxRetries c = int m \<Longrightarrow>
   fetch_count (fetchWithRetry fetch' c) \<le> m + 1 \<and>
   ((\<forall>k. retryable_failure c (fetch k)) \<longrightarrow>
      fetch_count (fetchWithRetry fetch c) = m + 1 \<and>
      isl (fetch_result (fetchWithRetry fetch c)) \<and>
      fetch_result (fetchWithRetry fetch c) = attempt_once (fetch (int m + 1)))"
proof -
  assume m: "maxRetries c = int m"
  have "fetch_count (fetchWithRetry fetch' c) \<le> 0 + nat (maxRetries c + 2 - 1)"
    unfolding fetchWithRetry_def by (rule attempts_from_le)
  then have le: "fetch_count (fetchWithRetry fetch' c) \<le> m + 1" using m by simp
  have "fetch_count (fetchWithRetry fetch c) = m + 1 \<and>
        isl (fetch_result (fetchWithRetry fetch c)) \<and>
        fetch_result (fetchWithRetry fetch c) = attempt_once (fetch (int m + 1))"
    if all: "\<forall>k. retryable_failure c (fetch k)"
  proof -
    have "(1::int) \<le> maxRetries c + 1" using m by simp
    from exhausts_from [OF all this, of None 0 "[]"] m show ?thesis
      by (auto simp: fetchWithRetry_def)
  qed
  with le show ?thesis by blast
qed

theorem fetchWithRetry_exhausts_witness:
  "maxRetries DEFAULT_RETRY_CONFIG = int 3 \<and>
   (\<forall>k. retryable_failure DEFAULT_RETRY_CONFIG (Response 503 ''Service Unavailable'')) \<and>
   fetch_count (fetchWithRetry (\<lambda>_. Response 503 ''Service Unavailable'') DEFAULT_RETRY_CONFIG) = 4 \<and>
   fetch_result (fetchWithRetry (\<lambda>_. Response 503 ''Service Unavailable'') DEFAULT_RETRY_CONFIG) =
     Inl (Error ''HTTP 503: Service Unavailable'')"
proof -
  have m: "maxRetries DEFAULT_RETRY_CONFIG = int 3" by (simp add: DEFAULT_RETRY_CONFIG_def)
  have r: "retryable_failure DEFAULT_RETRY_CONFIG (Response 503 ''Service Unavailable'')"
    by (simp add: retryable_failure_def attempt_once_def ok_def DEFAULT_RETRY_CONFIG_def
        default_retryCondition_def http_error_def digit_char_def)
  have a: "attempt_once (Response 503 ''Service Unavailable'') =
           Inl (Error ''HTTP 503: Service Unavailable'')"
    by (simp add: attempt_once_def ok_def http_error_def digit_char_def)
  from fetchWithRetry_exhausts [OF m, of "\<lambda>_. Response 503 ''Service Unavailable''"
      "\<lambda>_. Response 503 ''Service Unavailable''"] r a m
  show ?thesis by simp
qed

text \<open>
  C3. The source comments that client errors (4xx) are not retried, but the error thrown
  for a 4xx response is caught by the attempt's own \<^verbatim>\<open>catch\<close> block and handed to
  \<^verbatim>\<open>retryCondition\<close>, whose test \<^verbatim>\<open>message.includes('5')\<close> accepts
  \<open>HTTP 405: Method Not Allowed\<close>. With the default policy a 405 response is fetched four
  times, with the three backoff delays in between; a 404 with the status text
  \<open>Not Found\<close> is fetched once, and \<^verbatim>\<open>getMinerPayouts\<close> answers it with the empty list.
\<close>

theorem fetchWithRetry_retries_405:
  "fetchWithRetry (\<lambda>_. Response 405 ''Method Not Allowed'') DEFAULT_RETRY_CONFIG =
     \<lparr>fetch_result = Inl (Error ''HTTP 405: Method Not Allowed''), fetch_count = 4,
      sleeps = [1000, 2000, 4000]\<rparr> \<and>
   fetchWithRetry (\<lambda>_. Response 404 ''Not Found'') DEFAULT_RETRY_CONFIG =
     \<lparr>fetch_result = Inl (Error ''HTTP 404: Not Found''), fetch_count = 1, sleeps = []\<rparr> \<and>
   getMinerPayouts (\<lambda>_. Response 404 ''Not Found'') DEFAULT_RETRY_CONFIG json = Inr []"
  by (simp add: getMinerPayouts_def payouts_catch_def fetchWithRetry_def fetchWithRetry_from.simps
      DEFAULT_RETRY_CONFIG_def attempt_once_def ok_def shouldRetry_def default_retryCondition_def
      http_error_def digit_char_def calculateDelay_def)


section \<open>Properties of the miner-scoped reconstruction\<close>

lemma body_zero_matches:
  assumes "getShares a (batchSize a) None = Inr page" "page \<noteq> []"
    "\<forall>share \<in> set page. miner_address share \<noteq> address"
    "currentFromHeight s = Some c" "min_list (map side_height page) < c"
    "int (length (allMinerShares s)) < limit"
  shows "getMinerShares_body getShares address limit a s =
         Inr (Next (s\<lparr>currentFromHeight := Some (min_list (map side_height page))\<rparr>))"
proof -
  have "filter (\<lambda>share. miner_address share = address) page = []"
    using assms(3) by (simp add: filter_empty_conv)
  then show ?thesis using assms
    by (simp add: getMinerShares_body_def advance_cursor_def enough_check_def Let_def)
qed

lemma body_break:
  assumes "getMinerShares_body getShares address limit a s = Inr (Break s')"
  shows "limit \<le> int (length (allMinerShares s')) \<or>
        (\<exists>page. getShares a (batchSize a) None = Inr page \<and>
           (page = [] \<or>
            (\<exists>c. currentFromHeight s' = Some c \<and> c \<le> min_list (map side_height page))))"
  using assms
  by (auto simp: getMinerShares_body_def advance_cursor_def enough_check_def Let_def
      split: sum.splits if_splits option.splits)

lemma loop_stop:
  "getMinerShares_loop getShares address limit attempts s = Inr (attempts', s') \<Longrightarrow>
   limit \<le> int (length (allMinerShares s')) \<or> maxAttempts \<le> attempts' \<or>
   (\<exists>page. getShares attempts' (batchSize attempts') None = Inr page \<and>
      (page = [] \<or>
       (\<exists>c. currentFromHeight s' = Some c \<and> c \<le> min_list (map side_height page))))"
proof (induction getShares address limit attempts s rule: getMinerShares_loop.induct)
  case (1 getShares address limit attempts s)
  show ?case
  proof (cases "int (length (allMinerShares s)) < limit \<and> attempts < maxAttempts")
    case False
    with "1.prems" have "attempts' = attempts" "s' = s"
      by (simp_all add: getMinerShares_loop.simps)
    with False show ?thesis by auto
  next
    case True
    show ?thesis
    proof (cases "getMinerShares_body getShares address limit (Suc attempts) s")
      case (Inl e)
      with True "1.prems" show ?thesis by (simp add: getMinerShares_loop.simps)
    next
      case (Inr it)
      show ?thesis
      proof (cases it)
        case (Break s1)
        with True Inr "1.prems" have "attempts' = Suc attempts" "s' = s1"
          by (simp_all add: getMinerShares_loop.simps)
        with body_break [of getShares address limit "Suc attempts" s s1] Inr Break
        show ?thesis by blast
      next
        case (Next s1)
        with True Inr "1.prems"
        have "getMinerShares_loop getShares address limit (Suc attempts) s1 = Inr (attempts', s')"
          by (simp add: getMinerShares_loop.simps)
        with "1.IH" [OF True Inr Next] show ?thesis by blast
      qed
    qed
  qed
qed

text \<open>
  Two facts about the loop that hold for every upstream. An iteration that fetches a
  non-empty batch with no share of the target miner, whose minimum height is below the
  cursor, moves the cursor to that minimum and the loop goes on with the accumulated shares
  unchanged. And a loop that ends by its test or by a \<^verbatim>\<open>break\<close> ends for one of four
  reasons: the count reached the limit, 5 attempts were made, the last page was empty, or
  the minimum height of the last page was not below the cursor.
\<close>

lemma zero_match_batch_advances_cursor:
  assumes "getShares (Suc attempts) (batchSize (Suc attempts)) None = Inr page" "page \<noteq> []"
    "\<forall>share \<in> set page. miner_address share \<noteq> address"
    "currentFromHeight s = Some c" "min_list (map side_height page) < c"
    "int (length (allMinerShares s)) < limit" "attempts < maxAttempts"
  shows "getMinerShares_loop getShares address limit attempts s =
         getMinerShares_loop getShares address limit (Suc attempts)
           (s\<lparr>currentFromHeight := Some (min_list (map side_height page))\<rparr>)"
proof -
  have "getMinerShares_body getShares address limit (Suc attempts) s =
        Inr (Next (s\<lparr>currentFromHeight := Some (min_list (map side_height page))\<rparr>))"
    using assms(1-6) by (rule body_zero_matches)
  then show ?thesis using assms(6,7)
    by (subst getMinerShares_loop.simps) simp
qed

lemma loop_left_by_error:
  "getMinerShares_loop getShares address limit attempts s = Inl e \<Longrightarrow>
   \<exists>k. attempts < k \<and> k \<le> maxAttempts \<and> getShares k (batchSize k) None = Inl e"
proof (induction getShares address limit attempts s rule: getMinerShares_loop.induct)
  case (1 getShares address limit attempts s)
  show ?case
  proof (cases "int (length (allMinerShares s)) < limit \<and> attempts < maxAttempts")
    case False
    with "1.prems" show ?thesis by (simp add: getMinerShares_loop.simps)
  next
    case True
    show ?thesis
    proof (cases "getMinerShares_body getShares address limit (Suc attempts) s")
      case (Inl e')
      with True "1.prems" have "e' = e" by (simp add: getMinerShares_loop.simps)
      with Inl have "getShares (Suc attempts) (batchSize (Suc attempts)) None = Inl e"
        by (auto simp: getMinerShares_body_def advance_cursor_def enough_check_def Let_def
            split: sum.splits if_splits option.splits)
      with True show ?thesis by (intro exI [of _ "Suc attempts"]) simp
    next
      case (Inr it)
      show ?thesis
      proof (cases it)
        case (Break s1)
        with True Inr "1.prems" show ?thesis by (simp add: getMinerShares_loop.simps)
      next
        case (Next s1)
        with True Inr "1.prems"
        have "getMinerShares_loop getShares address limit (Suc attempts) s1 = Inl e"
          by (simp add: getMinerShares_loop.simps)
        from "1.IH" [OF True Inr Next this] obtain k
          where "Suc attempts < k" "k \<le> maxAttempts" "getShares k (batchSize k) None = Inl e"
          by blast
        then show ?thesis by (intro exI [of _ k]) simp
      qed
    qed
  qed
qed

text \<open>
  C4. The first half holds on the code: here the first batch is not empty, holds no share
  of the miner and has the minimum height 90 below the cursor 100, and the iteration moves
  the cursor to 90 and goes on. The second half does not: the second \<^verbatim>\<open>getShares\<close>
  throws, nothing in the loop catches it, and the loop is left after 2 of 5 attempts with
  0 of 2 shares, although the last page fetched was not empty and the height made
  progress; the call returns \<^verbatim>\<open>[]\<close>. None of the four reasons holds.
\<close>

theorem getMinerShares_loop_left_by_failed_batch:
  "getMinerShares_body
     (\<lambda>k n m. if k = 1
        then Inr [\<lparr>main_height = 7, template_id = ''a1'', side_height = 95, miner_address = ''other''\<rparr>,
                  \<lparr>main_height = 7, template_id = ''a2'', side_height = 90, miner_address = ''other''\<rparr>]
        else Inl (Error ''Failed to fetch shares: HTTP 503: Service Unavailable''))
     ''miner'' 2 1 \<lparr>allMinerShares = [], currentFromHeight = Some 100\<rparr> =
   Inr (Next \<lparr>allMinerShares = [], currentFromHeight = Some 90\<rparr>) \<and>
   getMinerShares_body
     (\<lambda>k n m. if k = 1
        then Inr [\<lparr>main_height = 7, template_id = ''a1'', side_height = 95, miner_address = ''other''\<rparr>,
                  \<lparr>main_height = 7, template_id = ''a2'', side_height = 90, miner_address = ''other''\<rparr>]
        else Inl (Error ''Failed to fetch shares: HTTP 503: Service Unavailable''))
     ''miner'' 2 2 \<lparr>allMinerShares = [], currentFromHeight = Some 90\<rparr> =
   Inl (Error ''Failed to fetch shares: HTTP 503: Service Unavailable'') \<and>
   getMinerShares_loop
     (\<lambda>k n m. if k = 1
        then Inr [\<lparr>main_height = 7, template_id = ''a1'', side_height = 95, miner_address = ''other''\<rparr>,
                  \<lparr>main_height = 7, template_id = ''a2'', side_height = 90, miner_address = ''other''\<rparr>]
        else Inl (Error ''Failed to fetch shares: HTTP 503: Service Unavailable''))
     ''miner'' 2 0 \<lparr>allMinerShares = [], currentFromHeight = Some 100\<rparr> =
   Inl (Error ''Failed to fetch shares: HTTP 503: Service Unavailable'') \<and>
   getMinerShares
     (\<lambda>k n m. if k = 1
        then Inr [\<lparr>main_height = 7, template_id = ''a1'', side_height = 95, miner_address = ''other''\<rparr>,
                  \<lparr>main_height = 7, template_id = ''a2'', side_height = 90, miner_address = ''other''\<rparr>]
        else Inl (Error ''Failed to fetch shares: HTTP 503: Service Unavailable''))
     ''miner'' 2 (Some 100) = []"
  by (simp add: getMinerShares_def getMinerShares_loop.simps getMinerShares_body_def
      advance_cursor_def enough_check_def Let_def maxAttempts_def batchSize_def)

text \<open>
  C5. In this file a failing batch is not caught inside the loop: the error leaves the
  loop and reaches the \<^verbatim>\<open>catch\<close> around the whole function, which returns
  \<^verbatim>\<open>[]\<close>. Here the first batch yields one share of the miner (the loop goes on,
  holding it), the second batch fails, and the call returns the empty list;
  \<^verbatim>\<open>getMinerFoundBlocks\<close> does the same.
\<close>

theorem getMinerShares_drops_partial_results:
  "getMinerShares_body
     (\<lambda>k n m. if k = 1
        then Inr [\<lparr>main_height = 7, template_id = ''t1'', side_height = 90, miner_address = ''miner''\<rparr>,
                  \<lparr>main_height = 7, template_id = ''t2'', side_height = 80, miner_address = ''other''\<rparr>]
        else Inl (Error ''Failed to fetch shares: HTTP 503: Service Unavailable''))
     ''miner'' 2 1 \<lparr>allMinerShares = [], currentFromHeight = Some 100\<rparr> =
   Inr (Next \<lparr>allMinerShares =
               [\<lparr>main_height = 7, template_id = ''t1'', side_height = 90, miner_address = ''miner''\<rparr>],
             currentFromHeight = Some 80\<rparr>) \<and>
   getMinerShares
     (\<lambda>k n m. if k = 1
        then Inr [\<lparr>main_height = 7, template_id = ''t1'', side_height = 90, miner_address = ''miner''\<rparr>,
                  \<lparr>main_height = 7, template_id = ''t2'', side_height = 80, miner_address = ''other''\<rparr>]
        else Inl (Error ''Failed to fetch shares: HTTP 503: Service Unavailable''))
     ''miner'' 2 (Some 100) = [] \<and>
   getMinerFoundBlocks_body
     (\<lambda>k n m. if k = 1
        then Inr [\<lparr>block_id = ''b1'', block_height = 90, block_miner_address = ''miner''\<rparr>,
                  \<lparr>block_id = ''b2'', block_height = 80, block_miner_address = ''other''\<rparr>]
        else Inl (Error ''Failed to fetch found blocks: HTTP 503: Service Unavailable''))
     ''miner'' 2 1 \<lparr>allMinerBlocks = [], blocks_currentFromHeight = None\<rparr> =
   Inr (Next \<lparr>allMinerBlocks =
               [\<lparr>block_id = ''b1'', block_height = 90, block_miner_address = ''miner''\<rparr>],
             blocks_currentFromHeight = Some 80\<rparr>) \<and>
   getMinerFoundBlocks
     (\<lambda>k n m. if k = 1
        then Inr [\<lparr>block_id = ''b1'', block_height = 90, block_miner_address = ''miner''\<rparr>,
                  \<lparr>block_id = ''b2'', block_height = 80, block_miner_address = ''other''\<rparr>]
        else Inl (Error ''Failed to fetch found blocks: HTTP 503: Service Unavailable''))
     ''miner'' 2 None = []"
  by (simp add: getMinerShares_def getMinerShares_loop.simps getMinerShares_body_def
      advance_cursor_def enough_check_def Let_def maxAttempts_def batchSize_def
      getMinerFoundBlocks_def getMinerFoundBlocks_loop.simps getMinerFoundBlocks_body_def
      blocks_advance_cursor_def blocks_enough_check_def blocks_batchSize_def)

section \<open>Properties of the local cache\<close>

lemma replace_ids:
  "map id' (map (\<lambda>x. if id' x = id' r then r else x) rs) = map id' rs"
  by (induction rs) auto

lemma replace_other:
  "id' r \<noteq> k \<Longrightarrow>
   filter (\<lambda>x. id' x = k) (map (\<lambda>x. if id' x = id' r then r else x) rs) =
   filter (\<lambda>x. id' x = k) rs"
  by (induction rs) auto

lemma replace_absent:
  "\<forall>x \<in> set rs. id' x \<noteq> id' r \<Longrightarrow>
   filter (\<lambda>x. id' x = id' r) (map (\<lambda>x. if id' x = id' r then r else x) rs) = []"
  by (induction rs) auto

lemma replace_same:
  "distinct (map id' rs) \<Longrightarrow> \<exists>x \<in> set rs. id' x = id' r \<Longrightarrow>
   filter (\<lambda>x. id' x = id' r) (map (\<lambda>x. if id' x = id' r then r else x) rs) = [r]"
proof (induction rs)
  case Nil
  then show ?case by simp
next
  case (Cons a rs)
  show ?case
  proof (cases "id' a = id' r")
    case True
    with Cons.prems(1) have "\<forall>x \<in> set rs. id' x \<noteq> id' r"
      by (auto simp: image_iff)
    from replace_absent [OF this] True show ?thesis by simp
  next
    case False
    with Cons show ?thesis by auto
  qed
qed

lemma idb_put_distinct: "distinct (map id' rs) \<Longrightarrow> distinct (map id' (idb_put r rs))"
  using replace_ids [of r rs] by (auto simp: idb_put_def simp del: map_map)

lemma idb_put_same:
  "distinct (map id' rs) \<Longrightarrow> filter (\<lambda>x. id' x = id' r) (idb_put r rs) = [r]"
  using replace_same [of rs r] by (auto simp: idb_put_def filter_empty_conv)

lemma idb_put_other:
  "id' r \<noteq> k \<Longrightarrow> filter (\<lambda>x. id' x = k) (idb_put r rs) = filter (\<lambda>x. id' x = k) rs"
  using replace_other [of r k rs] by (auto simp: idb_put_def)

lemma records_fold_put:
  "records (fold (\<lambda>share d'. put_in d' SHARES (f share)) xs d SHARES) =
   fold (\<lambda>share rs. idb_put (f share) rs) xs (records (d SHARES))"
  by (induction xs arbitrary: d) (simp_all add: put_in_def)

lemma fold_put_distinct:
  "distinct (map id' rs) \<Longrightarrow>
   distinct (map id' (fold (\<lambda>share rs. idb_put (f share) rs) xs rs))"
  by (induction xs arbitrary: rs) (simp_all add: idb_put_distinct)

lemma fold_put_other:
  "\<forall>x \<in> set xs. id' (f x) \<noteq> k \<Longrightarrow>
   filter (\<lambda>r. id' r = k) (fold (\<lambda>share rs. idb_put (f share) rs) xs rs) =
   filter (\<lambda>r. id' r = k) rs"
  by (induction xs arbitrary: rs) (simp_all add: idb_put_other)

lemma fold_put_last:
  assumes "distinct (map id' rs)" "\<forall>x \<in> set post. id' (f x) \<noteq> id' (f s)"
  shows "filter (\<lambda>r. id' r = id' (f s))
           (fold (\<lambda>share rs. idb_put (f share) rs) (pre @ [s] @ post) rs) = [f s]"
proof -
  have "distinct (map id' (fold (\<lambda>share rs. idb_put (f share) rs) pre rs))"
    using assms(1) by (rule fold_put_distinct)
  then show ?thesis using assms(2)
    by (simp add: fold_put_other idb_put_same)
qed

lemma storeShares_ready:
  assumes "db st = Some d" "shares \<noteq> []"
  shows "storeShares st apiUrl shares now =
         Inr (st\<lparr>db := Some (fold (\<lambda>share d'. put_in d' SHARES (share_record apiUrl now share))
                               shares d)\<rparr>)"
  using assms by (simp add: storeShares_def ensureReady_def)

lemma share_key_cong:
  "side_height s1 = side_height s2 \<Longrightarrow> template_id s1 = template_id s2 \<Longrightarrow>
   share_key apiUrl s1 = share_key apiUrl s2"
  by (simp add: share_key_def)

lemma id_share_record [simp]: "id' (share_record apiUrl now share) = share_key apiUrl share"
  by (simp add: share_record_def)

text \<open>
  C7. Two shares with the same side height and template id, stored under the same API URL
  (in two calls of \<^verbatim>\<open>storeShares\<close>, each among other shares): afterwards the shares
  partition holds exactly one record under their key, and it is the record of the share
  written later, with the later write time.
\<close>

theorem storeShares_dedup:
  assumes "db st = Some d" and "distinct (map id' (records (d SHARES)))"
    and "side_height s1 = side_height s2" and "template_id s1 = template_id s2"
    and "\<forall>x \<in> set post2. share_key apiUrl x \<noteq> share_key apiUrl s2"
  shows "\<exists>st1 st2 d2.
           storeShares st apiUrl (pre1 @ [s1] @ post1) t1 = Inr st1 \<and>
           storeShares st1 apiUrl (pre2 @ [s2] @ post2) t2 = Inr st2 \<and>
           db st2 = Some d2 \<and>
           filter (\<lambda>r. id' r = share_key apiUrl s1) (records (d2 SHARES)) =
             [\<lparr>id' = share_key apiUrl s1, data = ShareData s2, timestamp = t2,
               lastAccessed = t2\<rparr>]"
proof -
  let ?d1 = "fold (\<lambda>share d'. put_in d' SHARES (share_record apiUrl t1 share))
               (pre1 @ [s1] @ post1) d"
  let ?st1 = "st\<lparr>db := Some ?d1\<rparr>"
  let ?d2 = "fold (\<lambda>share d'. put_in d' SHARES (share_record apiUrl t2 share))
               (pre2 @ [s2] @ post2) ?d1"
  let ?st2 = "?st1\<lparr>db := Some ?d2\<rparr>"
  have k: "share_key apiUrl s1 = share_key apiUrl s2"
    using assms(3,4) by (rule share_key_cong)
  have 1: "storeShares st apiUrl (pre1 @ [s1] @ post1) t1 = Inr ?st1"
    using assms(1) by (intro storeShares_ready) simp_all
  have 2: "storeShares ?st1 apiUrl (pre2 @ [s2] @ post2) t2 = Inr ?st2"
    by (intro storeShares_ready) simp_all
  have dist: "distinct (map id' (records (?d1 SHARES)))"
    unfolding records_fold_put using assms(2) by (rule fold_put_distinct)
  have "\<forall>x \<in> set post2. id' (share_record apiUrl t2 x) \<noteq> id' (share_record apiUrl t2 s2)"
    using assms(5) by simp
  from fold_put_last [OF dist this, of pre2]
  have "filter (\<lambda>r. id' r = share_key apiUrl s2) (records (?d2 SHARES)) =
        [share_record apiUrl t2 s2]"
    unfolding records_fold_put by simp
  then have 3: "filter (\<lambda>r. id' r = share_key apiUrl s1) (records (?d2 SHARES)) =
        [\<lparr>id' = share_key apiUrl s1, data = ShareData s2, timestamp = t2, lastAccessed = t2\<rparr>]"
    by (simp add: k share_record_def)
  have 4: "db ?st2 = Some ?d2" by simp
  from 1 2 3 4 show ?thesis by blast
qed

theorem storeShares_dedup_witness:
  "\<exists>st1 st2 d2.
     storeShares \<lparr>db = Some upgrade, window_defined = True\<rparr> ''u''
       [\<lparr>main_height = 1, template_id = ''ab'', side_height = 42, miner_address = ''m''\<rparr>] 10 = Inr st1 \<and>
     storeShares st1 ''u''
       [\<lparr>main_height = 2, template_id = ''ab'', side_height = 42, miner_address = ''m''\<rparr>] 20 = Inr st2 \<and>
     db st2 = Some d2 \<and>
     filter (\<lambda>r. id' r = ''share_u_42_ab'') (records (d2 SHARES)) =
       [\<lparr>id' = ''share_u_42_ab'',
         data = ShareData \<lparr>main_height = 2, template_id = ''ab'', side_height = 42,
                           miner_address = ''m''\<rparr>,
         timestamp = 20, lastAccessed = 20\<rparr>]"
proof -
  let ?s1 = "\<lparr>main_height = 1, template_id = ''ab'', side_height = 42, miner_address = ''m''\<rparr>"
  let ?s2 = "\<lparr>main_height = 2, template_id = ''ab'', side_height = 42, miner_address = ''m''\<rparr>"
  let ?st = "\<lparr>db = Some upgrade, window_defined = True\<rparr>"
  have k: "share_key ''u'' ?s1 = ''share_u_42_ab''"
    by (simp add: share_key_def string_of_int_def digit_char_def)
  have "db ?st = Some upgrade" by simp
  moreover have "distinct (map id' (records (upgrade SHARES)))" by (simp add: upgrade_def)
  moreover have "side_height ?s1 = side_height ?s2" "template_id ?s1 = template_id ?s2" by simp_all
  moreover have "\<forall>x \<in> set []. share_key ''u'' x \<noteq> share_key ''u'' ?s2" by simp
  ultimately show ?thesis
    using storeShares_dedup [of ?st upgrade ?s1 ?s2 "[]" "''u''" "[]" "[]" 10 "[]" 20]
    by (simp add: k)
qed

text \<open>
  C8. \<^verbatim>\<open>cleanup\<close> visits the partitions in the order of \<^verbatim>\<open>STORES\<close>. In a partition
  with a record in range, the cursor loop ends with an error, which the \<^verbatim>\<open>catch\<close> of
  \<^verbatim>\<open>cleanup\<close> logs: no later partition is visited and no metadata is written. Here
  the time is day 40; the pool-info record was written 2 days ago (retention 1 day) and
  the share 31 days ago (retention 30 days). The pool-info record is deleted and the
  share is kept. When the share partition is the first with an expired record, the share
  written 31 days ago is deleted and the one written 29 days ago is kept.
\<close>

theorem cleanup_stops_after_first_expired_partition:
  "(\<exists>st' d'.
      cleanup
        \<lparr>db = Some (upgrade
           (POOL_INFO := \<lparr>indexes = indexes (upgrade POOL_INFO),
              records = [\<lparr>id' = ''pool_u'',
                          data = PoolInfoData \<lparr>sidechain_height = 1, sidechain_miners = 2,
                                               mainchain_height = 3\<rparr>,
                          timestamp = 3283200000, lastAccessed = 3283200000\<rparr>]\<rparr>,
            SHARES := \<lparr>indexes = indexes (upgrade SHARES),
              records = [\<lparr>id' = ''share_u_42_ab'',
                          data = ShareData \<lparr>main_height = 1, template_id = ''ab'',
                                            side_height = 42, miner_address = ''m''\<rparr>,
                          timestamp = 777600000, lastAccessed = 777600000\<rparr>]\<rparr>)),
         window_defined = True\<rparr>
        3456000000 = Inr st' \<and>
      db st' = Some d' \<and>
      records (d' POOL_INFO) = [] \<and>
      map id' (records (d' SHARES)) = [''share_u_42_ab''] \<and>
      records (d' METADATA) = []) \<and>
   (\<exists>st' d'.
      cleanup
        \<lparr>db = Some (upgrade
           (SHARES := \<lparr>indexes = indexes (upgrade SHARES),
              records = [\<lparr>id' = ''share_u_42_ab'',
                          data = ShareData \<lparr>main_height = 1, template_id = ''ab'',
                                            side_height = 42, miner_address = ''m''\<rparr>,
                          timestamp = 777600000, lastAccessed = 777600000\<rparr>,
                         \<lparr>id' = ''share_u_43_cd'',
                          data = ShareData \<lparr>main_height = 1, template_id = ''cd'',
                                            side_height = 43, miner_address = ''m''\<rparr>,
                          timestamp = 950400000, lastAccessed = 950400000\<rparr>]\<rparr>)),
         window_defined = True\<rparr>
        3456000000 = Inr st' \<and>
      db st' = Some d' \<and>
      map id' (records (d' SHARES)) = [''share_u_43_cd''])"
  by (simp add: cleanup_def ensureReady_def STORES_entries_def STORES_def RETENTION_PERIODS_def
      cleanup_store_def idb_index_def upgrade_def key_at_def in_upperBound_def)

text \<open>
  C9. With \<^verbatim>\<open>window\<close> defined but no \<^verbatim>\<open>indexedDB\<close> (or a failed \<^verbatim>\<open>openDB\<close>),
  \<^verbatim>\<open>init\<close> leaves \<^verbatim>\<open>db\<close> null; \<^verbatim>\<open>ensureReady\<close> then throws, and the put
  operations pass the error on to their caller instead of returning silently.
\<close>

theorem store_throws_when_backend_unavailable:
  "storeMinerInfo (init True False opened) apiUrl addr minerInfo now =
     Inl (Error ''Storage not initialized'') \<and>
   storePoolInfo (init True False opened) apiUrl poolInfo now =
     Inl (Error ''Storage not initialized'') \<and>
   storeMinerInfo (init True True (Inl e)) apiUrl addr minerInfo now =
     Inl (Error ''Storage not initialized'') \<and>
   storeMinerInfo (init False False opened) apiUrl addr minerInfo now =
     Inl (Error ''Storage not initialized'')"
  by (simp add: storeMinerInfo_def storePoolInfo_def store_def ensureReady_def init_def)

theorem store_throws_when_backend_unavailable_witness:
  "storeMinerInfo (init True False (Inr upgrade)) ''https://mini.p2pool.observer'' ''4A''
     \<lparr>info_address = ''4A'', last_share_height = 7, last_share_timestamp = 9\<rparr> 1000 =
     Inl (Error ''Storage not initialized'') \<and>
   storePoolInfo (init True False (Inr upgrade)) ''https://mini.p2pool.observer''
     \<lparr>sidechain_height = 1, sidechain_miners = 2, mainchain_height = 3\<rparr> 1000 =
     Inl (Error ''Storage not initialized'')"
  using store_throws_when_backend_unavailable
    [of "Inr upgrade" "''https://mini.p2pool.observer''" "''4A''"
        "\<lparr>info_address = ''4A'', last_share_height = 7, last_share_timestamp = 9\<rparr>" 1000
        "\<lparr>sidechain_height = 1, sidechain_miners = 2, mainchain_height = 3\<rparr>"]
  by blast

section \<open>Properties of the orchestrator's cache fallback\<close>

lemma schema_created_init: "schema_created (init has_window has_indexedDB (Inr upgrade))"
  by (simp add: schema_created_def init_def STORES_entries_def)

lemma indexes_put_in [simp]: "indexes (put_in d storeName r k) = indexes (d k)"
  by (simp add: put_in_def)

lemma indexes_fold_put_in [simp]:
  "indexes (fold (\<lambda>share d'. put_in d' storeName (f share)) xs d k) = indexes (d k)"
  by (induction xs arbitrary: d) simp_all

lemma storeShares_schema:
  "storeShares st apiUrl shares now = Inr st' \<Longrightarrow> schema_created st \<Longrightarrow> schema_created st'"
  by (auto simp: storeShares_def schema_created_def ensureReady_def STORES_entries_def
      split: if_splits option.splits)

lemma getSharesByMiner_fails:
  "schema_created st \<Longrightarrow>
   getSharesByMiner st apiUrl addr limit =
     Inl (Error (if db st = None then ''Storage not initialized'' else ''NotFoundError''))"
  by (auto simp: getSharesByMiner_def schema_created_def ensureReady_def STORES_entries_def
      idb_index_def upgrade_def split: option.splits)

text \<open>
  C10. The shares store is created with the indexes \<open>timestamp\<close> and \<open>apiUrl\<close> only, and
  \<^verbatim>\<open>getSharesByMiner\<close> opens the index \<open>miner_address\<close>. On every storage whose
  database has the created indexes (or was never opened) \<^verbatim>\<open>getSharesByMiner\<close> ends in
  an error, whatever the store holds; so the query function of the miner shares never
  returns shares read from the cache, and it leaves the indexes as they are.
\<close>

theorem getSharesByMiner_never_serves_cache:
  "schema_created st \<Longrightarrow>
   isl (getSharesByMiner st apiUrl addr limit) \<and>
   (\<forall>cached. fst (minerSharesQuery_queryFn getShares st apiUrl minerAddress now) \<noteq>
                 Inr (Cached cached)) \<and>
   schema_created (snd (minerSharesQuery_queryFn getShares st apiUrl minerAddress now))"
proof -
  assume s: "schema_created st"
  have a: "isl (getSharesByMiner st apiUrl addr limit)"
    by (simp add: getSharesByMiner_fails [OF s])
  have b: "fst (minerSharesQuery_queryFn getShares st apiUrl minerAddress now) \<noteq> Inr (Cached cached)"
    for cached
    by (simp add: minerSharesQuery_queryFn_def getSharesByMiner_fails [OF s] Let_def
        split: sum.splits)
  have c: "schema_created (snd (minerSharesQuery_queryFn getShares st apiUrl minerAddress now))"
    using s storeShares_schema [of st apiUrl _ now]
    by (auto simp: minerSharesQuery_queryFn_def getSharesByMiner_fails [OF s] Let_def
        split: sum.splits)
  from a b c show ?thesis by blast
qed

theorem getSharesByMiner_never_serves_cache_witness:
  "schema_created
     \<lparr>db = Some (upgrade
        (SHARES := \<lparr>indexes = indexes (upgrade SHARES),
           records = [\<lparr>id' = ''share_u_42_ab'',
                       data = ShareData \<lparr>main_height = 1, template_id = ''ab'',
                                         side_height = 42, miner_address = ''m''\<rparr>,
                       timestamp = 10, lastAccessed = 10\<rparr>]\<rparr>)),
      window_defined = True\<rparr> \<and>
   isl (getSharesByMiner
     \<lparr>db = Some (upgrade
        (SHARES := \<lparr>indexes = indexes (upgrade SHARES),
           records = [\<lparr>id' = ''share_u_42_ab'',
                       data = ShareData \<lparr>main_height = 1, template_id = ''ab'',
                                         side_height = 42, miner_address = ''m''\<rparr>,
                       timestamp = 10, lastAccessed = 10\<rparr>]\<rparr>)),
      window_defined = True\<rparr> ''u'' ''m'' 30)"
proof -
  let ?st = "\<lparr>db = Some (upgrade
        (SHARES := \<lparr>indexes = indexes (upgrade SHARES),
           records = [\<lparr>id' = ''share_u_42_ab'',
                       data = ShareData \<lparr>main_height = 1, template_id = ''ab'',
                                         side_height = 42, miner_address = ''m''\<rparr>,
                       timestamp = 10, lastAccessed = 10\<rparr>]\<rparr>)),
      window_defined = True\<rparr>"
  have s: "schema_created ?st"
    by (simp add: schema_created_def STORES_entries_def)
  from getSharesByMiner_never_serves_cache [OF s, of "''u''" "''m''" 30] s
  show ?thesis by blast
qed

lemma retrieve_hit:
  assumes "db st = Some d" "find (\<lambda>r. id' r = key) (records (d storeName)) = Some entry"
  shows "\<exists>st'. retrieve st storeName key now = Inr (st', Some (data entry))"
  using assms by (simp add: retrieve_def ensureReady_def)

lemma retrieve_miss:
  assumes "db st = Some d" "find (\<lambda>r. id' r = key) (records (d storeName)) = None"
  shows "retrieve st storeName key now = Inr (st, None)"
  using assms by (simp add: retrieve_def ensureReady_def)

lemma lastUpdate_single:
  "lastUpdate [q] = (if dataUpdatedAt q = 0 then None else Some (dataUpdatedAt q))"
  by (simp add: lastUpdate_def)

text \<open>
  C6, as the code has it. The pool-info fetch fails at time \<open>now\<close>. With a cache entry
  under the key of the API URL, the query resolves with the cached data, its error is
  unset, and \<^verbatim>\<open>dataUpdatedAt\<close> (hence \<^verbatim>\<open>lastUpdate\<close>) is \<open>now\<close>, the time of
  this refresh: the write time of the entry is not read. Without an entry the query keeps
  its data and time and carries the fetch error, which the \<^verbatim>\<open>error\<close> field shows.
\<close>

theorem poolInfo_fallback:
  assumes "window_defined st" and "db st = Some d"
  shows "(find (\<lambda>r. id' r = ''pool_'' @ apiUrl) (records (d POOL_INFO)) = Some entry \<longrightarrow>
            q_data (snd (refresh_poolInfo (Inl err) apiUrl now st q)) = Some (data entry) \<and>
            q_error (snd (refresh_poolInfo (Inl err) apiUrl now st q)) = None \<and>
            error_field [snd (refresh_poolInfo (Inl err) apiUrl now st q)] = None \<and>
            dataUpdatedAt (snd (refresh_poolInfo (Inl err) apiUrl now st q)) = now \<and>
            (now \<noteq> 0 \<longrightarrow>
               lastUpdate [snd (refresh_poolInfo (Inl err) apiUrl now st q)] = Some now)) \<and>
         (find (\<lambda>r. id' r = ''pool_'' @ apiUrl) (records (d POOL_INFO)) = None \<longrightarrow>
            q_data (snd (refresh_poolInfo (Inl err) apiUrl now st q)) = q_data q \<and>
            q_error (snd (refresh_poolInfo (Inl err) apiUrl now st q)) = Some err \<and>
            dataUpdatedAt (snd (refresh_poolInfo (Inl err) apiUrl now st q)) = dataUpdatedAt q \<and>
            error_field [snd (refresh_poolInfo (Inl err) apiUrl now st q)] =
              Some (if message err = [] then ''Unknown error'' else message err))"
proof (intro conjI impI)
  assume hit: "find (\<lambda>r. id' r = ''pool_'' @ apiUrl) (records (d POOL_INFO)) = Some entry"
  from retrieve_hit [OF assms(2) hit, of now] obtain st'
    where "retrieve st POOL_INFO (''pool_'' @ apiUrl) now = Inr (st', Some (data entry))" ..
  then have r: "refresh_poolInfo (Inl err) apiUrl now st q =
      (st', q\<lparr>q_data := Some (data entry), q_error := None, dataUpdatedAt := now\<rparr>)"
    using assms(1)
    by (simp add: refresh_poolInfo_def poolInfoQuery_queryFn_def getPoolInfo_def settle_def)
  show "q_data (snd (refresh_poolInfo (Inl err) apiUrl now st q)) = Some (data entry)"
    and "q_error (snd (refresh_poolInfo (Inl err) apiUrl now st q)) = None"
    and "error_field [snd (refresh_poolInfo (Inl err) apiUrl now st q)] = None"
    and "dataUpdatedAt (snd (refresh_poolInfo (Inl err) apiUrl now st q)) = now"
    by (simp_all add: r error_field_def)
  show "lastUpdate [snd (refresh_poolInfo (Inl err) apiUrl now st q)] = Some now" if "now \<noteq> 0"
    using that by (simp add: r lastUpdate_single)
next
  assume miss: "find (\<lambda>r. id' r = ''pool_'' @ apiUrl) (records (d POOL_INFO)) = None"
  have r: "refresh_poolInfo (Inl err) apiUrl now st q = (st, q\<lparr>q_error := Some err\<rparr>)"
    using assms(1) retrieve_miss [OF assms(2) miss, of now]
    by (simp add: refresh_poolInfo_def poolInfoQuery_queryFn_def getPoolInfo_def settle_def)
  show "q_data (snd (refresh_poolInfo (Inl err) apiUrl now st q)) = q_data q"
    and "q_error (snd (refresh_poolInfo (Inl err) apiUrl now st q)) = Some err"
    and "dataUpdatedAt (snd (refresh_poolInfo (Inl err) apiUrl now st q)) = dataUpdatedAt q"
    and "error_field [snd (refresh_poolInfo (Inl err) apiUrl now st q)] =
          Some (if message err = [] then ''Unknown error'' else message err)"
    by (simp_all add: r error_field_def)
qed


theorem poolInfo_fallback_witness:
  "q_data (snd (refresh_poolInfo (Inl (Error ''Failed to fetch pool info: Failed to fetch''))
      ''u'' 21000
      \<lparr>db = Some (upgrade
         (POOL_INFO := \<lparr>indexes = indexes (upgrade POOL_INFO),
            records = [\<lparr>id' = ''pool_u'',
                        data = PoolInfoData \<lparr>sidechain_height = 1, sidechain_miners = 2,
                                             mainchain_height = 3\<rparr>,
                        timestamp = 1000, lastAccessed = 1000\<rparr>]\<rparr>)),
       window_defined = True\<rparr>
      \<lparr>q_data = None, q_error = None, dataUpdatedAt = 0\<rparr>)) =
     Some (PoolInfoData \<lparr>sidechain_height = 1, sidechain_miners = 2, mainchain_height = 3\<rparr>) \<and>
   q_error (snd (refresh_poolInfo (Inl (Error ''Failed to fetch pool info: Failed to fetch''))
      ''u'' 21000 \<lparr>db = Some upgrade, window_defined = True\<rparr>
      \<lparr>q_data = None, q_error = None, dataUpdatedAt = 0\<rparr>)) =
     Some (Error ''Failed to fetch pool info: Failed to fetch'')"
proof -
  let ?e = "Error ''Failed to fetch pool info: Failed to fetch''"
  let ?entry = "\<lparr>id' = ''pool_u'',
                  data = PoolInfoData \<lparr>sidechain_height = 1, sidechain_miners = 2,
                                       mainchain_height = 3\<rparr>,
                  timestamp = 1000, lastAccessed = 1000\<rparr>"
  let ?d = "upgrade (POOL_INFO := \<lparr>indexes = indexes (upgrade POOL_INFO), records = [?entry]\<rparr>)"
  let ?st = "\<lparr>db = Some ?d, window_defined = True\<rparr>"
  let ?fresh = "\<lparr>db = Some upgrade, window_defined = True\<rparr>"
  let ?q = "\<lparr>q_data = None, q_error = None, dataUpdatedAt = 0\<rparr>"
  have hit: "find (\<lambda>r. id' r = ''pool_'' @ ''u'') (records (?d POOL_INFO)) = Some ?entry"
    by simp
  have miss: "find (\<lambda>r. id' r = ''pool_'' @ ''u'') (records (upgrade POOL_INFO)) = None"
    by (simp add: upgrade_def)
  have w: "window_defined ?st" and wf: "window_defined ?fresh" by simp_all
  have dbs: "db ?st = Some ?d" and dbf: "db ?fresh = Some upgrade" by simp_all
  have a: "q_data (snd (refresh_poolInfo (Inl ?e) ''u'' 21000 ?st ?q)) = Some (data ?entry)"
    using poolInfo_fallback [OF w dbs, where apiUrl = "''u''" and entry = ?entry and err = ?e
        and now = 21000 and q = ?q] hit by blast
  have b: "q_error (snd (refresh_poolInfo (Inl ?e) ''u'' 21000 ?fresh ?q)) = Some ?e"
    using poolInfo_fallback [OF wf dbf, where apiUrl = "''u''" and entry = ?entry and err = ?e
        and now = 21000 and q = ?q] miss by blast
  from a b show ?thesis by simp
qed

text \<open>
  C6, as the specification states it, fails on its last-update part. The cache entry was written at
  time 1000, by the refresh that also gave the query its data; the refresh at time 21000
  fails and is served from the cache. \<^verbatim>\<open>lastUpdate\<close> was 1000 before and is 21000
  afterwards: it shows the time of the failed refresh, not the write time of the entry.
\<close>

theorem poolInfo_lastUpdate_counterexample:
  "lastUpdate [\<lparr>q_data = Some (PoolInfoData \<lparr>sidechain_height = 1, sidechain_miners = 2,
                                             mainchain_height = 3\<rparr>),
               q_error = None, dataUpdatedAt = 1000\<rparr>] = Some 1000 \<and>
   lastUpdate [snd (refresh_poolInfo (Inl (Error ''Failed to fetch pool info: Failed to fetch''))
      ''u'' 21000
      \<lparr>db = Some (upgrade
         (POOL_INFO := \<lparr>indexes = indexes (upgrade POOL_INFO),
            records = [\<lparr>id' = ''pool_u'',
                        data = PoolInfoData \<lparr>sidechain_height = 1, sidechain_miners = 2,
                                             mainchain_height = 3\<rparr>,
                        timestamp = 1000, lastAccessed = 1000\<rparr>]\<rparr>)),
       window_defined = True\<rparr>
      \<lparr>q_data = Some (PoolInfoData \<lparr>sidechain_height = 1, sidechain_miners = 2,
                                    mainchain_height = 3\<rparr>),
       q_error = None, dataUpdatedAt = 1000\<rparr>)] = Some 21000 \<and>
   lastUpdate [snd (refresh_poolInfo (Inl (Error ''Failed to fetch pool info: Failed to fetch''))
      ''u'' 21000
      \<lparr>db = Some (upgrade
         (POOL_INFO := \<lparr>indexes = indexes (upgrade POOL_INFO),
            records = [\<lparr>id' = ''pool_u'',
                        data = PoolInfoData \<lparr>sidechain_height = 1, sidechain_miners = 2,
                                             mainchain_height = 3\<rparr>,
                        timestamp = 1000, lastAccessed = 1000\<rparr>]\<rparr>)),
       window_defined = True\<rparr>
      \<lparr>q_data = Some (PoolInfoData \<lparr>sidechain_height = 1, sidechain_miners = 2,
                                    mainchain_height = 3\<rparr>),
       q_error = None, dataUpdatedAt = 1000\<rparr>)] \<noteq> Some 1000"
  by (simp add: lastUpdate_def refresh_poolInfo_def poolInfoQuery_queryFn_def getPoolInfo_def
      retrieve_def ensureReady_def settle_def)


end
